theory Spec2Isabelle
  imports Main "HOL-Library.Word"
begin

section \<open>Go values and process termination\<close>

text \<open>
  Go's \<open>int\<close> and \<open>uint\<close> are 64 bits wide on the platforms the service is built for;
  both are modelled as 64-bit words, read through \<open>sint\<close> and \<open>unat\<close> respectively.
  A \<open>byte\<close> is an 8-bit word.
\<close>

type_synonym go_int = "64 word"
type_synonym go_uint = "64 word"
type_synonym byte = "8 word"

text \<open>
  The ways a call can fail to return:
  \<^item> \<open>Fatal m\<close>: \<open>stdLog.Fatal\<close> / \<open>stdLog.Fatalf\<close> wrote \<open>m\<close> and called \<open>os.Exit(1)\<close>;
  \<^item> \<open>Exit ms n\<close>: the lines \<open>ms\<close> were written with \<open>stdLog.Printf\<close>, then \<open>os.Exit(n)\<close>;
  \<^item> \<open>Panic m\<close>: a run-time panic (failed type assertion, index out of range).
\<close>

datatype abort = Fatal string | Exit "string list" nat | Panic string

definition bind :: "abort + 'a \<Rightarrow> ('a \<Rightarrow> abort + 'b) \<Rightarrow> abort + 'b" where
  "bind m f = (case m of Inl e \<Rightarrow> Inl e | Inr x \<Rightarrow> f x)"

section \<open>resourceadapter: PopulateAccountThresholds\<close>

text \<open>
  \<open>row.Thresholds[i]\<close>: an index beyond the end is a run-time panic in Go.
\<close>

definition index :: "'a list \<Rightarrow> nat \<Rightarrow> abort + 'a" where
  "index xs i = (if i < length xs then Inr (xs ! i) else Inl (Panic ''index out of range''))"

text \<open>
  The two structs are declared in other packages (\<open>protocols/horizon\<close> and \<open>db2/core\<close>);
  only the fields the function touches are named, the others are the records' extension
  parts.
\<close>

record AccountThresholds =
  LowThreshold :: byte
  MedThreshold :: byte
  HighThreshold :: byte

record Account =
  Thresholds :: "byte list"

definition PopulateAccountThresholds ::
  "'a AccountThresholds_scheme \<Rightarrow> 'b Account_scheme \<Rightarrow> abort + 'a AccountThresholds_scheme" where
  "PopulateAccountThresholds dest row =
     bind (index (Thresholds row) 1) (\<lambda>t1.
     let dest = dest\<lparr>LowThreshold := t1\<rparr> in
     bind (index (Thresholds row) 2) (\<lambda>t2.
     let dest = dest\<lparr>MedThreshold := t2\<rparr> in
     bind (index (Thresholds row) 3) (\<lambda>t3.
     let dest = dest\<lparr>HighThreshold := t3\<rparr> in
     Inr dest)))"

section \<open>Formatting\<close>

text \<open>The decimal form \<open>%v\<close> and \<open>%d\<close> give a number, and \<open>%v\<close> gives a slice of strings.\<close>

definition digitChar :: "nat \<Rightarrow> char" where
  "digitChar d = ''0123456789'' ! d"

fun showNat :: "nat \<Rightarrow> string" where
  "showNat n = (if n < 10 then [digitChar n] else showNat (n div 10) @ [digitChar (n mod 10)])"

declare showNat.simps [simp del]

definition showInt :: "int \<Rightarrow> string" where
  "showInt i = (if i < 0 then CHR ''-'' # showNat (nat (- i)) else showNat (nat i))"

fun joinSpaces :: "string list \<Rightarrow> string" where
  "joinSpaces [] = []"
| "joinSpaces [x] = x"
| "joinSpaces (x # y # ys) = x @ '' '' @ joinSpaces (y # ys)"

definition showStrings :: "string list \<Rightarrow> string" where
  "showStrings xs = ''['' @ joinSpaces xs @ '']''"

definition dq :: string where
  "dq = [CHR 0x22]"

section \<open>The configuration value and its parts\<close>

text \<open>
  \<open>horizon.Config\<close> is declared in package \<open>horizon\<close>. Its fields and their types are
  those of the struct literal at the end of \<open>initConfig\<close>: a field assigned
  \<open>viper.GetString(..)\<close> is a \<open>string\<close>, one assigned \<open>uint(..)\<close> a \<open>uint\<close>, the
  fields assigned \<open>rateLimit\<close> and \<open>friendbotURL\<close> are the pointers
  \<open>*throttled.RateQuota\<close> and \<open>*url.URL\<close> (modelled as options, \<open>None\<close> for \<open>nil\<close>).
\<close>

datatype Level = PanicLevel | FatalLevel | ErrorLevel | WarnLevel | InfoLevel | DebugLevel

record URL =
  Scheme :: string
  Host :: string
  Path :: string

type_synonym Duration = "64 word"

definition Second :: Duration where
  "Second = 1000000000"

text \<open>\<open>throttled.PerHour n\<close> is kept as a constructor: the rate "n per hour".\<close>

datatype Rate = PerHour go_int

record RateQuota =
  MaxRate :: Rate
  MaxBurst :: go_int

record Config =
  DatabaseURL :: string
  StellarCoreDatabaseURL :: string
  StellarCoreURL :: string
  Port :: go_int
  MaxDBConnections :: go_int
  SSEUpdateFrequency :: Duration
  ConnectionTimeout :: Duration
  RateLimit :: "RateQuota option"
  RateLimitRedisKey :: string
  RedisURL :: string
  FriendbotURL :: "URL option"
  LogLevel :: Level
  LogFile :: string
  MaxPathLength :: go_uint
  NetworkPassphrase :: string
  SentryDSN :: string
  LogglyToken :: string
  LogglyTag :: string
  TLSCert :: string
  TLSKey :: string
  Ingest :: bool
  HistoryRetentionCount :: go_uint
  StaleThreshold :: go_uint
  SkipCursorUpdate :: bool
  EnableAssetStats :: bool

text \<open>The zero value of the struct, which \<open>var c horizon.Config\<close> starts with.\<close>

definition zeroConfig :: Config where
  "zeroConfig =
     \<lparr>DatabaseURL = [], StellarCoreDatabaseURL = [], StellarCoreURL = [], Port = 0,
      MaxDBConnections = 0, SSEUpdateFrequency = 0, ConnectionTimeout = 0, RateLimit = None,
      RateLimitRedisKey = [], RedisURL = [], FriendbotURL = None, LogLevel = PanicLevel,
      LogFile = [], MaxPathLength = 0, NetworkPassphrase = [], SentryDSN = [],
      LogglyToken = [], LogglyTag = [], TLSCert = [], TLSKey = [], Ingest = False,
      HistoryRetentionCount = 0, StaleThreshold = 0, SkipCursorUpdate = False,
      EnableAssetStats = False\<rparr>"

datatype App = App Config

text \<open>The conversion \<open>uint(x)\<close> of an \<open>int\<close>: the value modulo \<open>2^64\<close>, with no check.\<close>

definition uint_conv :: "go_int \<Rightarrow> go_uint" where
  "uint_conv x = word_of_int (sint x)"

section \<open>The outside world\<close>

text \<open>
  What the operator supplied and what the collaborators answer. Each is an external
  collaborator of the program and is taken as a parameter.
  \<^item> \<open>cmdline\<close>: the text given on the command line for a flag, by flag name;
  \<^item> \<open>environ\<close>: the process environment;
  \<^item> \<open>ParseInt\<close>: the integer a string denotes for \<open>viper.GetInt\<close>, if any;
  \<^item> \<open>GetMigrationsUp\<close>, \<open>GetNumMigrationsDown\<close>: package \<open>schema\<close>, given the database URL;
  \<^item> \<open>Version\<close>: \<open>apkg.Version()\<close>;
  \<^item> \<open>urlParse\<close>: \<open>url.Parse\<close>, the error's text on the left;
  \<^item> \<open>ParseLevel\<close>: \<open>logrus.ParseLevel\<close>, \<open>None\<close> for an error;
  \<^item> \<open>OpenFile\<close>: whether \<open>os.OpenFile\<close> succeeds for append on that path;
  \<^item> \<open>NewApp\<close>: \<open>horizon.NewApp\<close>, the error's text on the left.
\<close>

record world =
  cmdline :: "string \<rightharpoonup> string"
  environ :: "string \<rightharpoonup> string"
  ParseInt :: "string \<Rightarrow> go_int option"
  GetMigrationsUp :: "string \<Rightarrow> string list"
  GetNumMigrationsDown :: "string \<Rightarrow> go_int"
  Version :: string
  urlParse :: "string \<Rightarrow> string + URL"
  ParseLevel :: "string \<Rightarrow> Level option"
  OpenFile :: "string \<Rightarrow> bool"
  NewApp :: "Config \<Rightarrow> string + App"

section \<open>Option descriptors\<close>

text \<open>
  \<open>flagDefault\<close> is an \<open>interface{}\<close> holding a string, an int, a bool or a uint; the
  type switches of \<open>setFlag\<close> and \<open>setSimpleValue\<close> are case distinctions on it.
\<close>

datatype flagDefault = DString string | DInt go_int | DBool bool | DUint go_uint

text \<open>
  \<open>configKey\<close> is an \<open>interface{}\<close> holding a pointer to a field of the global \<open>c\<close>.
  Each constructor is the dynamic type of that pointer and carries the write through it;
  \<open>NilKey\<close> is the nil interface. A type assertion \<open>co.configKey.(*T)\<close> succeeds only on
  the constructor for \<open>*T\<close> and panics otherwise.
\<close>

datatype configKey =
    NilKey
  | PtrString "string \<Rightarrow> Config \<Rightarrow> Config"
  | PtrInt "go_int \<Rightarrow> Config \<Rightarrow> Config"
  | PtrBool "bool \<Rightarrow> Config \<Rightarrow> Config"
  | PtrUint "go_uint \<Rightarrow> Config \<Rightarrow> Config"
  | PtrDuration "Duration \<Rightarrow> Config \<Rightarrow> Config"
  | PtrLevel "Level \<Rightarrow> Config \<Rightarrow> Config"
  | PtrURL "URL \<Rightarrow> Config \<Rightarrow> Config"
  | PtrPtrURL "URL option \<Rightarrow> Config \<Rightarrow> Config"
  | PtrPtrRateQuota "RateQuota option \<Rightarrow> Config \<Rightarrow> Config"

text \<open>The functions the table puts into \<open>customSetValue\<close>, by name.\<close>

datatype customSetter =
  SetDuration | SetURL | SetLogLevel | SetLogFile | SetRateLimit | IncrementTLSFlag

text \<open>
  \<open>configOption\<close>. The fields \<open>flagType\<close> (never set by the table) and \<open>usage\<close> (help
  text) have no effect on resolution and are left out.
\<close>

record configOption =
  name :: string
  envVar :: string
  flagDefault :: flagDefault
  required :: bool
  customSetValue :: "customSetter option"
  configKey :: configKey

text \<open>
  The initial value of the table \<open>configOpts\<close>, in the source's order. The argument
  stands for \<open>network.TestNetworkPassphrase\<close>, a constant declared elsewhere.
\<close>

definition opt :: "string \<Rightarrow> string \<Rightarrow> configKey \<Rightarrow> flagDefault \<Rightarrow> bool
    \<Rightarrow> customSetter option \<Rightarrow> configOption" where
  "opt n e k d r f =
     \<lparr>name = n, envVar = e, flagDefault = d, required = r, customSetValue = f, configKey = k\<rparr>"

definition configOpts_init :: "string \<Rightarrow> configOption list" where
  "configOpts_init TestNetworkPassphrase =
    [opt ''db-url'' ''DATABASE_URL'' (PtrString (\<lambda>v. DatabaseURL_update (\<lambda>_. v)))
       (DString []) True None,
     opt ''stellar-core-db-url'' ''STELLAR_CORE_DATABASE_URL''
       (PtrString (\<lambda>v. StellarCoreDatabaseURL_update (\<lambda>_. v))) (DString []) True None,
     opt ''stellar-core-url'' [] (PtrString (\<lambda>v. StellarCoreURL_update (\<lambda>_. v)))
       (DString []) True None,
     opt ''port'' [] (PtrInt (\<lambda>v. Port_update (\<lambda>_. v))) (DInt 8000) False None,
     opt ''max-db-connections'' [] (PtrInt (\<lambda>v. MaxDBConnections_update (\<lambda>_. v)))
       (DInt 20) False None,
     opt ''sse-update-frequency'' [] (PtrDuration (\<lambda>v. SSEUpdateFrequency_update (\<lambda>_. v)))
       (DInt 5) False (Some SetDuration),
     opt ''connection-timeout'' [] (PtrDuration (\<lambda>v. ConnectionTimeout_update (\<lambda>_. v)))
       (DInt 55) False (Some SetDuration),
     opt ''per-hour-rate-limit'' [] (PtrPtrRateQuota (\<lambda>v. RateLimit_update (\<lambda>_. v)))
       (DInt 3600) False (Some SetRateLimit),
     opt ''rate-limit-redis-key'' [] (PtrString (\<lambda>v. RateLimitRedisKey_update (\<lambda>_. v)))
       (DString []) False None,
     opt ''redis-url'' [] (PtrString (\<lambda>v. RedisURL_update (\<lambda>_. v))) (DString []) False None,
     opt ''friendbot-url'' [] (PtrPtrURL (\<lambda>v. FriendbotURL_update (\<lambda>_. v)))
       (DString []) False (Some SetURL),
     opt ''log-level'' [] (PtrLevel (\<lambda>v. LogLevel_update (\<lambda>_. v)))
       (DString ''info'') False (Some SetLogLevel),
     opt ''log-file'' [] (PtrString (\<lambda>v. LogFile_update (\<lambda>_. v)))
       (DString []) False (Some SetLogFile),
     opt ''max-path-length'' [] (PtrUint (\<lambda>v. MaxPathLength_update (\<lambda>_. v)))
       (DUint 4) False None,
     opt ''network-passphrase'' [] (PtrString (\<lambda>v. NetworkPassphrase_update (\<lambda>_. v)))
       (DString TestNetworkPassphrase) True None,
     opt ''sentry-dsn'' [] (PtrString (\<lambda>v. SentryDSN_update (\<lambda>_. v))) (DString []) False None,
     opt ''loggly-token'' [] (PtrString (\<lambda>v. LogglyToken_update (\<lambda>_. v)))
       (DString []) False None,
     opt ''loggly-tag'' [] (PtrString (\<lambda>v. LogglyTag_update (\<lambda>_. v)))
       (DString ''horizon'') False None,
     opt ''tls-cert'' [] (PtrString (\<lambda>v. TLSCert_update (\<lambda>_. v)))
       (DString []) False (Some IncrementTLSFlag),
     opt ''tls-key'' [] (PtrString (\<lambda>v. TLSKey_update (\<lambda>_. v)))
       (DString []) False (Some IncrementTLSFlag),
     opt ''ingest'' [] (PtrBool (\<lambda>v. Ingest_update (\<lambda>_. v))) (DBool False) False None,
     opt ''history-retention-count'' []
       (PtrUint (\<lambda>v. HistoryRetentionCount_update (\<lambda>_. v))) (DUint 0) False None,
     opt ''history-stale-threshold'' [] (PtrUint (\<lambda>v. StaleThreshold_update (\<lambda>_. v)))
       (DUint 0) False None,
     opt ''skip-cursor-update'' [] (PtrBool (\<lambda>v. SkipCursorUpdate_update (\<lambda>_. v)))
       (DBool False) False None,
     opt ''enable-asset-stats'' [] (PtrBool (\<lambda>v. EnableAssetStats_update (\<lambda>_. v)))
       (DBool False) False None]"

section \<open>viper, as far as the program uses it\<close>

text \<open>
  viper is a third-party library. The model keeps the part of its lookup the program
  relies on: a key is answered by the flag bound to it when that flag was given on the
  command line, else by the environment variable bound to it with \<open>BindEnv\<close> when that
  variable is set and not empty, else by the value given to \<open>SetDefault\<close>, else by the
  default of the flag bound to it. A flag of type int or bool is reported as an int or a
  bool, any other flag as its text. The getters convert what was found: a string is read
  as a number by \<open>ParseInt\<close> (0 when it is none), as a bool by \<open>ParseBool\<close> (false when it
  is none); a key that nothing answers gives the zero value.
\<close>

datatype val = VString string | VInt go_int | VBool bool

record viper =
  defaults :: "string \<rightharpoonup> val"
  env :: "string \<rightharpoonup> string"
  pflags :: "string \<rightharpoonup> flagDefault"

definition ParseBool :: "string \<Rightarrow> bool option" where
  "ParseBool s =
     (if s \<in> set [''1'', ''t'', ''T'', ''TRUE'', ''true'', ''True''] then Some True
      else if s \<in> set [''0'', ''f'', ''F'', ''FALSE'', ''false'', ''False''] then Some False
      else None)"

definition ToString :: "val option \<Rightarrow> string" where
  "ToString x =
     (case x of
        None \<Rightarrow> []
      | Some (VString s) \<Rightarrow> s
      | Some (VInt i) \<Rightarrow> showInt (sint i)
      | Some (VBool b) \<Rightarrow> (if b then ''true'' else ''false''))"

definition ToInt :: "world \<Rightarrow> val option \<Rightarrow> go_int" where
  "ToInt w x =
     (case x of
        None \<Rightarrow> 0
      | Some (VString s) \<Rightarrow> (case ParseInt w s of Some i \<Rightarrow> i | None \<Rightarrow> 0)
      | Some (VInt i) \<Rightarrow> i
      | Some (VBool b) \<Rightarrow> (if b then 1 else 0))"

definition ToBool :: "val option \<Rightarrow> bool" where
  "ToBool x =
     (case x of
        None \<Rightarrow> False
      | Some (VString s) \<Rightarrow> (case ParseBool s of Some b \<Rightarrow> b | None \<Rightarrow> False)
      | Some (VInt i) \<Rightarrow> i \<noteq> 0
      | Some (VBool b) \<Rightarrow> b)"

definition defaultString :: "flagDefault \<Rightarrow> string" where
  "defaultString d =
     (case d of
        DString s \<Rightarrow> s
      | DInt i \<Rightarrow> showInt (sint i)
      | DBool b \<Rightarrow> (if b then ''true'' else ''false'')
      | DUint n \<Rightarrow> showNat (unat n))"

definition flagValue :: "world \<Rightarrow> flagDefault \<Rightarrow> string \<Rightarrow> val" where
  "flagValue w d txt =
     (case d of
        DInt _ \<Rightarrow> VInt (ToInt w (Some (VString txt)))
      | DBool _ \<Rightarrow> VBool (ToBool (Some (VString txt)))
      | _ \<Rightarrow> VString txt)"

definition viper_default :: "world \<Rightarrow> viper \<Rightarrow> string \<Rightarrow> val option" where
  "viper_default w v key =
     (case defaults v key of
        Some x \<Rightarrow> Some x
      | None \<Rightarrow>
          (case pflags v key of
             Some d \<Rightarrow> Some (flagValue w d (defaultString d))
           | None \<Rightarrow> None))"

definition viper_env :: "world \<Rightarrow> viper \<Rightarrow> string \<Rightarrow> val option" where
  "viper_env w v key =
     (case env v key of
        None \<Rightarrow> None
      | Some e \<Rightarrow>
          (case environ w e of
             None \<Rightarrow> None
           | Some s \<Rightarrow> (if s \<noteq> [] then Some (VString s) else None)))"

definition viper_flag :: "world \<Rightarrow> viper \<Rightarrow> string \<Rightarrow> val option" where
  "viper_flag w v key =
     (case pflags v key of
        None \<Rightarrow> None
      | Some d \<Rightarrow>
          (case cmdline w key of
             None \<Rightarrow> None
           | Some txt \<Rightarrow> Some (flagValue w d txt)))"

definition viper_find :: "world \<Rightarrow> viper \<Rightarrow> string \<Rightarrow> val option" where
  "viper_find w v key =
     (case viper_flag w v key of
        Some x \<Rightarrow> Some x
      | None \<Rightarrow>
          (case viper_env w v key of
             Some x \<Rightarrow> Some x
           | None \<Rightarrow> viper_default w v key))"

definition GetString :: "world \<Rightarrow> viper \<Rightarrow> string \<Rightarrow> string" where
  "GetString w v key = ToString (viper_find w v key)"

definition GetInt :: "world \<Rightarrow> viper \<Rightarrow> string \<Rightarrow> go_int" where
  "GetInt w v key = ToInt w (viper_find w v key)"

definition GetBool :: "world \<Rightarrow> viper \<Rightarrow> string \<Rightarrow> bool" where
  "GetBool w v key = ToBool (viper_find w v key)"

definition SetDefault :: "string \<Rightarrow> val \<Rightarrow> viper \<Rightarrow> viper" where
  "SetDefault key x v = v\<lparr>defaults := (defaults v)(key \<mapsto> x)\<rparr>"

definition BindEnv :: "string \<Rightarrow> string \<Rightarrow> viper \<Rightarrow> viper" where
  "BindEnv key e v = v\<lparr>env := (env v)(key \<mapsto> e)\<rparr>"

definition BindPFlags :: "(string \<rightharpoonup> flagDefault) \<Rightarrow> viper \<Rightarrow> viper" where
  "BindPFlags fs v = v\<lparr>pflags := (pflags v) ++ fs\<rparr>"

section \<open>The program's global variables\<close>

text \<open>
  \<open>log.DefaultLogger\<close>: its level and where it writes (\<open>None\<close>: the standard stream,
  \<open>Some f\<close>: the file opened at path \<open>f\<close>).
\<close>

record Logger =
  LoggerLevel :: Level
  LoggerOut :: "string option"

text \<open>
  The package's variables (\<open>c_global\<close> is the source's \<open>c\<close>), the flag set of \<open>rootCmd\<close>
  (each registered flag with its default), viper's state and the default logger.
\<close>

record globals =
  app :: "App option"
  config :: Config
  c_global :: Config
  tlsProvided :: go_int
  configOpts :: "configOption list"
  PersistentFlags :: "string \<rightharpoonup> flagDefault"
  vp :: viper
  DefaultLogger :: Logger

definition globals_init :: "string \<Rightarrow> globals" where
  "globals_init TestNetworkPassphrase =
     \<lparr>app = None, config = zeroConfig, c_global = zeroConfig, tlsProvided = 0,
      configOpts = configOpts_init TestNetworkPassphrase, PersistentFlags = Map.empty,
      vp = \<lparr>defaults = Map.empty, env = Map.empty, pflags = Map.empty\<rparr>,
      DefaultLogger = \<lparr>LoggerLevel = InfoLevel, LoggerOut = None\<rparr>\<rparr>"

section \<open>Registration: init\<close>

text \<open>Upper-casing of an ASCII letter; any other character is left as it is.\<close>

definition toUpper :: "char \<Rightarrow> char" where
  "toUpper ch =
     (case map_of (zip ''abcdefghijklmnopqrstuvwxyz'' ''ABCDEFGHIJKLMNOPQRSTUVWXYZ'') ch of
        Some u \<Rightarrow> u
      | None \<Rightarrow> ch)"

text \<open>
  Modelled from the spec: \<open>strutils.KebabToConstantCase\<close>, a function of package
  \<open>support/strutils\<close>; the spec has it convert kebab-case to upper snake-case.
\<close>

definition KebabToConstantCase :: "string \<Rightarrow> string" where
  "KebabToConstantCase kebab = map (\<lambda>ch. if ch = CHR ''-'' then CHR ''_'' else toUpper ch) kebab"

text \<open>
  \<open>setFlag\<close>: every branch of its type switch registers a flag named \<open>co.name\<close> of the
  default's type with the default as its value.
\<close>

definition setFlag :: "configOption \<Rightarrow> globals \<Rightarrow> globals" where
  "setFlag co g = g\<lparr>PersistentFlags := (PersistentFlags g)(name co \<mapsto> flagDefault co)\<rparr>"

text \<open>
  One pass of the loop of \<open>init\<close> over entry \<open>co\<close>: the entry as the loop leaves it, and
  the globals. \<open>viper.BindEnv\<close> stands inside the \<open>if\<close>, as in the source.
\<close>

definition initOption :: "configOption \<Rightarrow> globals \<Rightarrow> configOption \<times> globals" where
  "initOption co g =
     (let (co, g) =
        (if envVar co = [] then
           (let co = co\<lparr>envVar := KebabToConstantCase (name co)\<rparr>
            in (co, g\<lparr>vp := BindEnv (name co) (envVar co) (vp g)\<rparr>))
         else (co, g))
      in (co, setFlag co g))"

fun initLoop :: "configOption list \<Rightarrow> globals \<Rightarrow> configOption list \<times> globals" where
  "initLoop [] g = ([], g)"
| "initLoop (co # cos) g =
     (let (co', g') = initOption co g;
          (cos', g'') = initLoop cos g'
      in (co' # cos', g''))"

definition init :: "globals \<Rightarrow> globals" where
  "init g =
     (let g = g\<lparr>vp := SetDefault ''port'' (VInt 8000) (vp g)\<rparr>;
          g = g\<lparr>vp := SetDefault ''history-retention-count'' (VInt 0) (vp g)\<rparr>;
          (cos, g) = initLoop (configOpts g) g;
          g = g\<lparr>configOpts := cos\<rparr>
      in g\<lparr>vp := BindPFlags (PersistentFlags g) (vp g)\<rparr>)"

section \<open>Resolution\<close>

text \<open>\<open>require\<close>: the only check of the required-field validator.\<close>

definition require :: "world \<Rightarrow> viper \<Rightarrow> configOption \<Rightarrow> abort + unit" where
  "require w v co =
     (if required co = True \<and> GetString w v (name co) = [] then
        Inl (Fatal (''Invalid config: '' @ name co @ '' is blank. Please specify --'' @ name co
                    @ '' on the command line or set the '' @ envVar co
                    @ '' environment variable.''))
      else Inr ())"

text \<open>
  The type assertions \<open>co.configKey.(*T)\<close>: the write through the pointer when the key
  holds a \<open>*T\<close>, a panic when it holds anything else or nothing.
\<close>

definition typePanic :: abort where
  "typePanic = Panic ''interface conversion''"

definition assertPtrString :: "configKey \<Rightarrow> abort + (string \<Rightarrow> Config \<Rightarrow> Config)" where
  "assertPtrString k = (case k of PtrString st \<Rightarrow> Inr st | _ \<Rightarrow> Inl typePanic)"

definition assertPtrInt :: "configKey \<Rightarrow> abort + (go_int \<Rightarrow> Config \<Rightarrow> Config)" where
  "assertPtrInt k = (case k of PtrInt st \<Rightarrow> Inr st | _ \<Rightarrow> Inl typePanic)"

definition assertPtrBool :: "configKey \<Rightarrow> abort + (bool \<Rightarrow> Config \<Rightarrow> Config)" where
  "assertPtrBool k = (case k of PtrBool st \<Rightarrow> Inr st | _ \<Rightarrow> Inl typePanic)"

definition assertPtrUint :: "configKey \<Rightarrow> abort + (go_uint \<Rightarrow> Config \<Rightarrow> Config)" where
  "assertPtrUint k = (case k of PtrUint st \<Rightarrow> Inr st | _ \<Rightarrow> Inl typePanic)"

definition assertPtrDuration :: "configKey \<Rightarrow> abort + (Duration \<Rightarrow> Config \<Rightarrow> Config)" where
  "assertPtrDuration k = (case k of PtrDuration st \<Rightarrow> Inr st | _ \<Rightarrow> Inl typePanic)"

definition assertPtrLevel :: "configKey \<Rightarrow> abort + (Level \<Rightarrow> Config \<Rightarrow> Config)" where
  "assertPtrLevel k = (case k of PtrLevel st \<Rightarrow> Inr st | _ \<Rightarrow> Inl typePanic)"

definition assertPtrURL :: "configKey \<Rightarrow> abort + (URL \<Rightarrow> Config \<Rightarrow> Config)" where
  "assertPtrURL k = (case k of PtrURL st \<Rightarrow> Inr st | _ \<Rightarrow> Inl typePanic)"

definition assertPtrPtrRateQuota ::
  "configKey \<Rightarrow> abort + (RateQuota option \<Rightarrow> Config \<Rightarrow> Config)" where
  "assertPtrPtrRateQuota k = (case k of PtrPtrRateQuota st \<Rightarrow> Inr st | _ \<Rightarrow> Inl typePanic)"

text \<open>\<open>setSimpleValue\<close>: the type switch on the default, one getter per type.\<close>

definition setSimpleValue :: "configOption \<Rightarrow> world \<Rightarrow> globals \<Rightarrow> abort + globals" where
  "setSimpleValue co w g =
     (case configKey co of
        NilKey \<Rightarrow> Inr g
      | _ \<Rightarrow>
         (case flagDefault co of
            DString _ \<Rightarrow>
              bind (assertPtrString (configKey co)) (\<lambda>st.
                Inr (g\<lparr>c_global := st (GetString w (vp g) (name co)) (c_global g)\<rparr>))
          | DInt _ \<Rightarrow>
              bind (assertPtrInt (configKey co)) (\<lambda>st.
                Inr (g\<lparr>c_global := st (GetInt w (vp g) (name co)) (c_global g)\<rparr>))
          | DBool _ \<Rightarrow>
              bind (assertPtrBool (configKey co)) (\<lambda>st.
                Inr (g\<lparr>c_global := st (GetBool w (vp g) (name co)) (c_global g)\<rparr>))
          | DUint _ \<Rightarrow>
              bind (assertPtrUint (configKey co)) (\<lambda>st.
                Inr (g\<lparr>c_global := st (uint_conv (GetInt w (vp g) (name co))) (c_global g)\<rparr>))))"

definition setDuration :: "configOption \<Rightarrow> world \<Rightarrow> globals \<Rightarrow> abort + globals" where
  "setDuration co w g =
     bind (assertPtrDuration (configKey co)) (\<lambda>st.
       Inr (g\<lparr>c_global := st (GetInt w (vp g) (name co) * Second) (c_global g)\<rparr>))"

definition setURL :: "configOption \<Rightarrow> world \<Rightarrow> globals \<Rightarrow> abort + globals" where
  "setURL co w g =
     (let urlString = GetString w (vp g) (name co) in
      if urlString \<noteq> [] then
        (case urlParse w urlString of
           Inl err \<Rightarrow> Inl (Fatal (''Unable to parse URL: '' @ urlString @ ''/'' @ err))
         | Inr urlType \<Rightarrow>
             bind (assertPtrURL (configKey co)) (\<lambda>st.
               Inr (g\<lparr>c_global := st urlType (c_global g)\<rparr>)))
      else Inr g)"

definition setLogLevel :: "configOption \<Rightarrow> world \<Rightarrow> globals \<Rightarrow> abort + globals" where
  "setLogLevel co w g =
     (case ParseLevel w (GetString w (vp g) (name co)) of
        None \<Rightarrow> Inl (Fatal (''Could not parse log-level: '' @ GetString w (vp g) (name co)))
      | Some ll \<Rightarrow>
          (let g = g\<lparr>DefaultLogger := (DefaultLogger g)\<lparr>LoggerLevel := ll\<rparr>\<rparr> in
           bind (assertPtrLevel (configKey co)) (\<lambda>st.
             Inr (g\<lparr>c_global := st ll (c_global g)\<rparr>))))"

definition setLogFile :: "configOption \<Rightarrow> world \<Rightarrow> globals \<Rightarrow> abort + globals" where
  "setLogFile co w g =
     (let lf = GetString w (vp g) ''log-file'' in
      if lf \<noteq> [] then
        (if OpenFile w lf then
           (let g = g\<lparr>DefaultLogger := (DefaultLogger g)\<lparr>LoggerOut := Some lf\<rparr>\<rparr> in
            bind (assertPtrString (configKey co)) (\<lambda>st.
              Inr (g\<lparr>c_global := st lf (c_global g)\<rparr>)))
         else Inl (Fatal ''Failed to log to file''))
      else Inr g)"

definition setRateLimit :: "configOption \<Rightarrow> world \<Rightarrow> globals \<Rightarrow> abort + globals" where
  "setRateLimit co w g =
     (let perHourRateLimit = GetInt w (vp g) (name co) in
      if perHourRateLimit \<noteq> 0 then
        (let rateLimit = Some \<lparr>MaxRate = PerHour perHourRateLimit, MaxBurst = 100\<rparr> in
         bind (assertPtrPtrRateQuota (configKey co)) (\<lambda>st.
           Inr (g\<lparr>c_global := st rateLimit (c_global g)\<rparr>)))
      else Inr g)"

definition incrementTLSFlag :: "configOption \<Rightarrow> world \<Rightarrow> globals \<Rightarrow> abort + globals" where
  "incrementTLSFlag co w g =
     (let tls = GetString w (vp g) (name co) in
      if tls \<noteq> [] then
        (let g = g\<lparr>tlsProvided := tlsProvided g + 1\<rparr> in
         bind (assertPtrString (configKey co)) (\<lambda>st.
           Inr (g\<lparr>c_global := st tls (c_global g)\<rparr>)))
      else Inr g)"

definition validateTLS :: "go_int \<Rightarrow> abort + unit" where
  "validateTLS n =
     (if n = 1 then Inl (Fatal ''Invalid TLS config: both key and cert must be configured'')
      else Inr ())"

text \<open>The call \<open>co.customSetValue(co)\<close>, by the function the table names.\<close>

definition callCustom ::
  "customSetter \<Rightarrow> configOption \<Rightarrow> world \<Rightarrow> globals \<Rightarrow> abort + globals" where
  "callCustom f co w g =
     (case f of
        SetDuration \<Rightarrow> setDuration co w g
      | SetURL \<Rightarrow> setURL co w g
      | SetLogLevel \<Rightarrow> setLogLevel co w g
      | SetLogFile \<Rightarrow> setLogFile co w g
      | SetRateLimit \<Rightarrow> setRateLimit co w g
      | IncrementTLSFlag \<Rightarrow> incrementTLSFlag co w g)"

definition setValue :: "configOption \<Rightarrow> world \<Rightarrow> globals \<Rightarrow> abort + globals" where
  "setValue co w g =
     (case customSetValue co of
        Some f \<Rightarrow> callCustom f co w g
      | None \<Rightarrow>
          (case configKey co of
             NilKey \<Rightarrow> Inr g
           | _ \<Rightarrow> setSimpleValue co w g))"

section \<open>initConfig and initApp\<close>

text \<open>The first loop of \<open>initConfig\<close>: \<open>co.require()\<close> on every entry, in table order.\<close>

fun requireLoop :: "world \<Rightarrow> viper \<Rightarrow> configOption list \<Rightarrow> abort + unit" where
  "requireLoop w v [] = Inr ()"
| "requireLoop w v (co # cos) = bind (require w v co) (\<lambda>_. requireLoop w v cos)"

text \<open>
  The two migration checks of \<open>initConfig\<close>; the second query is made only when the
  first check passed.
\<close>

definition migrationGate :: "world \<Rightarrow> viper \<Rightarrow> abort + unit" where
  "migrationGate w v =
     (let migrationsToApplyUp = GetMigrationsUp w (GetString w v ''db-url'') in
      if length migrationsToApplyUp > 0 then
        Inl (Exit
          [''There are '' @ showNat (length migrationsToApplyUp)
             @ '' migrations to apply in the '' @ dq @ ''up'' @ dq @ '' direction.'',
           ''The necessary migrations are: '' @ showStrings migrationsToApplyUp,
           ''A database migration is required to run this version ('' @ Version w
             @ '') of Horizon. Run '' @ dq @ ''horizon db migrate up'' @ dq
             @ '' to update your DB. Consult the Changelog ''
             @ ''(https://github.com/stellar/horizon/blob/master/CHANGELOG.md) ''
             @ ''for more information.''] 1)
      else
        (let nMigrationsDown = GetNumMigrationsDown w (GetString w v ''db-url'') in
         if 0 <s nMigrationsDown then
           Inl (Exit
             [''A database migration DOWN to an earlier version of the schema is required ''
                @ ''to run this version ('' @ Version w @ '') of Horizon. Consult the ''
                @ ''Changelog (https://github.com/stellar/horizon/blob/master/CHANGELOG.md) ''
                @ ''for more information.'',
              ''In order to migrate the database DOWN, using the HIGHEST version number of ''
                @ ''Horizon you have installed (not this binary), run '' @ dq
                @ ''horizon db migrate down '' @ showInt (sint nMigrationsDown) @ dq
                @ ''.''] 1)
         else Inr ()))"

text \<open>The second loop of \<open>initConfig\<close>: \<open>co.setValue(&c)\<close> on every entry, in table order.\<close>

fun setValueLoop :: "world \<Rightarrow> configOption list \<Rightarrow> globals \<Rightarrow> abort + globals" where
  "setValueLoop w [] g = Inr g"
| "setValueLoop w (co # cos) g = bind (setValue co w g) (setValueLoop w cos)"

text \<open>
  The struct literal \<open>horizon.Config{...}\<close> that \<open>initConfig\<close> assigns to \<open>config\<close>, from
  the values computed before it and the getters.
\<close>

definition configLiteral ::
  "world \<Rightarrow> viper \<Rightarrow> RateQuota option \<Rightarrow> URL option \<Rightarrow> Level \<Rightarrow> string \<Rightarrow> string \<Rightarrow> string
    \<Rightarrow> Config" where
  "configLiteral w v rateLimit friendbotURL ll lf cert key =
           \<lparr>DatabaseURL = GetString w v ''db-url'',
            StellarCoreDatabaseURL = GetString w v ''stellar-core-db-url'',
            StellarCoreURL = GetString w v ''stellar-core-url'',
            Port = GetInt w v ''port'',
            MaxDBConnections = GetInt w v ''max-db-connections'',
            SSEUpdateFrequency = GetInt w v ''sse-update-frequency'' * Second,
            ConnectionTimeout = GetInt w v ''connection-timeout'' * Second,
            RateLimit = rateLimit,
            RateLimitRedisKey = GetString w v ''rate-limit-redis-key'',
            RedisURL = GetString w v ''redis-url'',
            FriendbotURL = friendbotURL,
            LogLevel = ll,
            LogFile = lf,
            MaxPathLength = uint_conv (GetInt w v ''max-path-length''),
            NetworkPassphrase = GetString w v ''network-passphrase'',
            SentryDSN = GetString w v ''sentry-dsn'',
            LogglyToken = GetString w v ''loggly-token'',
            LogglyTag = GetString w v ''loggly-tag'',
            TLSCert = cert,
            TLSKey = key,
            Ingest = GetBool w v ''ingest'',
            HistoryRetentionCount = uint_conv (GetInt w v ''history-retention-count''),
            StaleThreshold = uint_conv (GetInt w v ''history-stale-threshold''),
            SkipCursorUpdate = GetBool w v ''skip-cursor-update'',
            EnableAssetStats = GetBool w v ''enable-asset-stats''\<rparr>"

text \<open>
  The checks \<open>initConfig\<close> makes after the second loop, up to the assignment of
  \<open>config\<close>: the log level, \<open>validateTLS\<close>, the log file, the TLS pair by name, the
  friendbot URL and the rate limit, then the assignment of the struct literal.
\<close>

definition assemble :: "world \<Rightarrow> globals \<Rightarrow> abort + globals" where
  "assemble w g =
     (case ParseLevel w (GetString w (vp g) ''log-level'') of
        None \<Rightarrow> Inl (Fatal (''Could not parse log-level: '' @ GetString w (vp g) ''log-level''))
      | Some ll \<Rightarrow>
     (let g = g\<lparr>DefaultLogger := (DefaultLogger g)\<lparr>LoggerLevel := ll\<rparr>\<rparr> in
      bind (validateTLS (tlsProvided g)) (\<lambda>_.
     (let lf = GetString w (vp g) ''log-file'' in
      bind (if lf \<noteq> [] then
              (if OpenFile w lf then
                 Inr (g\<lparr>DefaultLogger := (DefaultLogger g)\<lparr>LoggerOut := Some lf\<rparr>\<rparr>)
               else Inl (Fatal ''Failed to log to file''))
            else Inr g) (\<lambda>g.
     (let cert = GetString w (vp g) ''tls-cert''; key = GetString w (vp g) ''tls-key'' in
      if cert \<noteq> [] \<and> key = [] then Inl (Fatal ''Invalid TLS config: key not configured'')
      else if cert = [] \<and> key \<noteq> [] then Inl (Fatal ''Invalid TLS config: cert not configured'')
      else
     (let friendbotURLString = GetString w (vp g) ''friendbot-url'' in
      bind (if friendbotURLString \<noteq> [] then
              (case urlParse w friendbotURLString of
                 Inl err \<Rightarrow>
                   Inl (Fatal (''Unable to parse URL: '' @ friendbotURLString @ ''/'' @ err))
               | Inr u \<Rightarrow> Inr (Some u))
            else Inr None) (\<lambda>friendbotURL.
     (let perHourRateLimit = GetInt w (vp g) ''per-hour-rate-limit'';
          rateLimit =
            (if perHourRateLimit \<noteq> 0 then
               Some \<lparr>MaxRate = PerHour perHourRateLimit, MaxBurst = 100\<rparr>
             else None)
      in Inr (g\<lparr>config := configLiteral w (vp g) rateLimit friendbotURL ll lf cert key\<rparr>))))))))))"

text \<open>
  \<open>initConfig\<close> up to and including the assignment of \<open>config\<close>.
\<close>

definition resolveConfig :: "world \<Rightarrow> globals \<Rightarrow> abort + globals" where
  "resolveConfig w g =
     bind (requireLoop w (vp g) (configOpts g)) (\<lambda>_.
     bind (migrationGate w (vp g)) (\<lambda>_.
     bind (setValueLoop w (configOpts g) g) (\<lambda>g.
     assemble w g)))"

text \<open>
  \<open>initConfig\<close>: after the assignment of \<open>config\<close> it prints the fields of \<open>c\<close> and
  \<open>config\<close> side by side (output only, not modelled) and then calls
  \<open>stdLog.Fatal("Died here")\<close>.
\<close>

definition initConfig :: "world \<Rightarrow> globals \<Rightarrow> abort + globals" where
  "initConfig w g = bind (resolveConfig w g) (\<lambda>g. Inl (Fatal ''Died here''))"

definition initApp :: "world \<Rightarrow> globals \<Rightarrow> abort + globals" where
  "initApp w g =
     bind (initConfig w g) (\<lambda>g.
       (case NewApp w (config g) of
          Inl err \<Rightarrow> Inl (Fatal err)
        | Inr a \<Rightarrow> Inr (g\<lparr>app := Some a\<rparr>)))"

section \<open>Concrete runs\<close>

text \<open>
  The state in which \<open>initConfig\<close> starts: the initial globals after \<open>init\<close>, with the
  test network's passphrase for \<open>network.TestNetworkPassphrase\<close>.
\<close>

definition testPassphrase :: string where
  "testPassphrase = ''Test SDF Network ; September 2015''"

definition g_start :: globals where
  "g_start = init (globals_init testPassphrase)"

text \<open>
  A reader of plain decimal numerals (an optional minus sign, then digits, within the
  range of \<open>int\<close>), for \<open>ParseInt\<close> in the concrete worlds below.
\<close>

definition digitVal :: "char \<Rightarrow> int option" where
  "digitVal ch = map_of (zip ''0123456789'' [0, 1, 2, 3, 4, 5, 6, 7, 8, 9]) ch"

fun parseDigits :: "string \<Rightarrow> int \<Rightarrow> int option" where
  "parseDigits [] acc = Some acc"
| "parseDigits (ch # cs) acc =
     (case digitVal ch of None \<Rightarrow> None | Some d \<Rightarrow> parseDigits cs (10 * acc + d))"

definition parseDecimal :: "string \<Rightarrow> go_int option" where
  "parseDecimal s =
     (case s of
        [] \<Rightarrow> None
      | ch # cs \<Rightarrow>
          (if ch = CHR ''-'' then
             (case (if cs = [] then None else parseDigits cs 0) of
                None \<Rightarrow> None
              | Some n \<Rightarrow> (if n \<le> 2 ^ 63 then Some (- word_of_int n) else None))
           else
             (case parseDigits s 0 of
                None \<Rightarrow> None
              | Some n \<Rightarrow> (if n < 2 ^ 63 then Some (word_of_int n) else None))))"

text \<open>
  A well-configured run: the three URLs given as flags, no pending migration, every
  collaborator succeeds.
\<close>

definition w_ok :: world where
  "w_ok =
     \<lparr>cmdline = [''db-url'' \<mapsto> ''postgres://horizon'',
                 ''stellar-core-db-url'' \<mapsto> ''postgres://core'',
                 ''stellar-core-url'' \<mapsto> ''http://core:11626''],
      environ = Map.empty,
      ParseInt = parseDecimal,
      GetMigrationsUp = (\<lambda>_. []),
      GetNumMigrationsDown = (\<lambda>_. 0),
      Version = ''0.13.0'',
      urlParse = (\<lambda>s. Inr \<lparr>Scheme = ''https'', Host = ''friendbot.stellar.org'', Path = ''/''\<rparr>),
      ParseLevel = (\<lambda>s. if s = ''info'' then Some InfoLevel else None),
      OpenFile = (\<lambda>_. True),
      NewApp = (\<lambda>cfg. Inr (App cfg))\<rparr>"

text \<open>Nothing supplied at all, and one migration pending in the up direction.\<close>

definition w_blank_pending :: world where
  "w_blank_pending = w_ok\<lparr>cmdline := Map.empty, GetMigrationsUp := (\<lambda>_. [''8_create_asset_stats_table.sql''])\<rparr>"

text \<open>
  The three required URLs supplied through the environment variables the table names,
  and nothing on the command line.
\<close>

definition w_env :: world where
  "w_env =
     w_ok\<lparr>cmdline := Map.empty,
          environ := [''DATABASE_URL'' \<mapsto> ''postgres://horizon'',
                      ''STELLAR_CORE_DATABASE_URL'' \<mapsto> ''postgres://core'',
                      ''STELLAR_CORE_URL'' \<mapsto> ''http://core:11626'']\<rparr>"

text \<open>Well configured, with one migration pending in the up direction.\<close>

definition w_pending :: world where
  "w_pending = w_ok\<lparr>GetMigrationsUp := (\<lambda>_. [''8_create_asset_stats_table.sql''])\<rparr>"

text \<open>Well configured, with three migrations pending in the down direction.\<close>

definition w_down3 :: world where
  "w_down3 = w_ok\<lparr>GetNumMigrationsDown := (\<lambda>_. 3)\<rparr>"

text \<open>
  Well configured, with two migrations pending in the up direction and three in the down
  direction at once.
\<close>

definition w_both :: world where
  "w_both =
     w_ok\<lparr>GetMigrationsUp :=
            (\<lambda>_. [''7_modify_trades_table.sql'', ''8_create_asset_stats_table.sql'']),
          GetNumMigrationsDown := (\<lambda>_. 3)\<rparr>"

text \<open>Well configured, with rate limiting switched off.\<close>

definition w_nolimit :: world where
  "w_nolimit = w_ok\<lparr>cmdline := (cmdline w_ok)(''per-hour-rate-limit'' \<mapsto> ''0'')\<rparr>"

text \<open>A negative number for an unsigned option, through its environment variable.\<close>

definition w_neg :: world where
  "w_neg =
     w_ok\<lparr>environ := [''MAX_PATH_LENGTH'' \<mapsto> ''-1'']\<rparr>"

text \<open>A friendbot URL that parses.\<close>

definition w_friendbot :: world where
  "w_friendbot = w_ok\<lparr>cmdline := (cmdline w_ok)(''friendbot-url'' \<mapsto> ''https://friendbot.stellar.org/'')\<rparr>"

text \<open>A certificate without a key.\<close>

definition w_cert_only :: world where
  "w_cert_only = w_ok\<lparr>cmdline := (cmdline w_ok)(''tls-cert'' \<mapsto> ''horizon.crt'')\<rparr>"

section \<open>Theorems\<close>

lemma bind_Inl [simp]: "bind (Inl e) f = Inl e"
  by (simp add: bind_def)

lemma bind_Inr [simp]: "bind (Inr x) f = f x"
  by (simp add: bind_def)

subsection \<open>Sequencing\<close>

lemma bind_eq_Inr_iff: "(bind m f = Inr y) = (\<exists>x. m = Inr x \<and> f x = Inr y)"
  by (cases m) simp_all

lemma bind_eq_Inl_iff: "(bind m f = Inl e) = (m = Inl e \<or> (\<exists>x. m = Inr x \<and> f x = Inl e))"
  by (cases m) auto

lemma bind_weak_cong: "m = m' \<Longrightarrow> bind m f = bind m' f"
  by simp

subsection \<open>The state after init\<close>

lemmas init_defs = g_start_def init_def globals_init_def configOpts_init_def initOption_def
  setFlag_def BindEnv_def SetDefault_def BindPFlags_def KebabToConstantCase_def toUpper_def Let_def

lemma configOpts_g_start: "configOpts g_start =
    [opt ''db-url'' ''DATABASE_URL'' (PtrString (\<lambda>v. DatabaseURL_update (\<lambda>_. v))) (DString []) True None,
     opt ''stellar-core-db-url'' ''STELLAR_CORE_DATABASE_URL'' (PtrString (\<lambda>v. StellarCoreDatabaseURL_update (\<lambda>_. v))) (DString []) True None,
     opt ''stellar-core-url'' ''STELLAR_CORE_URL'' (PtrString (\<lambda>v. StellarCoreURL_update (\<lambda>_. v))) (DString []) True None,
     opt ''port'' ''PORT'' (PtrInt (\<lambda>v. Port_update (\<lambda>_. v))) (DInt 8000) False None,
     opt ''max-db-connections'' ''MAX_DB_CONNECTIONS'' (PtrInt (\<lambda>v. MaxDBConnections_update (\<lambda>_. v))) (DInt 20) False None,
     opt ''sse-update-frequency'' ''SSE_UPDATE_FREQUENCY'' (PtrDuration (\<lambda>v. SSEUpdateFrequency_update (\<lambda>_. v))) (DInt 5) False (Some SetDuration),
     opt ''connection-timeout'' ''CONNECTION_TIMEOUT'' (PtrDuration (\<lambda>v. ConnectionTimeout_update (\<lambda>_. v))) (DInt 55) False (Some SetDuration),
     opt ''per-hour-rate-limit'' ''PER_HOUR_RATE_LIMIT'' (PtrPtrRateQuota (\<lambda>v. RateLimit_update (\<lambda>_. v))) (DInt 3600) False (Some SetRateLimit),
     opt ''rate-limit-redis-key'' ''RATE_LIMIT_REDIS_KEY'' (PtrString (\<lambda>v. RateLimitRedisKey_update (\<lambda>_. v))) (DString []) False None,
     opt ''redis-url'' ''REDIS_URL'' (PtrString (\<lambda>v. RedisURL_update (\<lambda>_. v))) (DString []) False None,
     opt ''friendbot-url'' ''FRIENDBOT_URL'' (PtrPtrURL (\<lambda>v. FriendbotURL_update (\<lambda>_. v))) (DString []) False (Some SetURL),
     opt ''log-level'' ''LOG_LEVEL'' (PtrLevel (\<lambda>v. LogLevel_update (\<lambda>_. v))) (DString ''info'') False (Some SetLogLevel),
     opt ''log-file'' ''LOG_FILE'' (PtrString (\<lambda>v. LogFile_update (\<lambda>_. v))) (DString []) False (Some SetLogFile),
     opt ''max-path-length'' ''MAX_PATH_LENGTH'' (PtrUint (\<lambda>v. MaxPathLength_update (\<lambda>_. v))) (DUint 4) False None,
     opt ''network-passphrase'' ''NETWORK_PASSPHRASE'' (PtrString (\<lambda>v. NetworkPassphrase_update (\<lambda>_. v))) (DString testPassphrase) True None,
     opt ''sentry-dsn'' ''SENTRY_DSN'' (PtrString (\<lambda>v. SentryDSN_update (\<lambda>_. v))) (DString []) False None,
     opt ''loggly-token'' ''LOGGLY_TOKEN'' (PtrString (\<lambda>v. LogglyToken_update (\<lambda>_. v))) (DString []) False None,
     opt ''loggly-tag'' ''LOGGLY_TAG'' (PtrString (\<lambda>v. LogglyTag_update (\<lambda>_. v))) (DString ''horizon'') False None,
     opt ''tls-cert'' ''TLS_CERT'' (PtrString (\<lambda>v. TLSCert_update (\<lambda>_. v))) (DString []) False (Some IncrementTLSFlag),
     opt ''tls-key'' ''TLS_KEY'' (PtrString (\<lambda>v. TLSKey_update (\<lambda>_. v))) (DString []) False (Some IncrementTLSFlag),
     opt ''ingest'' ''INGEST'' (PtrBool (\<lambda>v. Ingest_update (\<lambda>_. v))) (DBool False) False None,
     opt ''history-retention-count'' ''HISTORY_RETENTION_COUNT'' (PtrUint (\<lambda>v. HistoryRetentionCount_update (\<lambda>_. v))) (DUint 0) False None,
     opt ''history-stale-threshold'' ''HISTORY_STALE_THRESHOLD'' (PtrUint (\<lambda>v. StaleThreshold_update (\<lambda>_. v))) (DUint 0) False None,
     opt ''skip-cursor-update'' ''SKIP_CURSOR_UPDATE'' (PtrBool (\<lambda>v. SkipCursorUpdate_update (\<lambda>_. v))) (DBool False) False None,
     opt ''enable-asset-stats'' ''ENABLE_ASSET_STATS'' (PtrBool (\<lambda>v. EnableAssetStats_update (\<lambda>_. v))) (DBool False) False None]"
  by (simp add: init_defs opt_def)

lemma env_g_start: "env (vp g_start) =
    [''stellar-core-url'' \<mapsto> ''STELLAR_CORE_URL'',
     ''port'' \<mapsto> ''PORT'',
     ''max-db-connections'' \<mapsto> ''MAX_DB_CONNECTIONS'',
     ''sse-update-frequency'' \<mapsto> ''SSE_UPDATE_FREQUENCY'',
     ''connection-timeout'' \<mapsto> ''CONNECTION_TIMEOUT'',
     ''per-hour-rate-limit'' \<mapsto> ''PER_HOUR_RATE_LIMIT'',
     ''rate-limit-redis-key'' \<mapsto> ''RATE_LIMIT_REDIS_KEY'',
     ''redis-url'' \<mapsto> ''REDIS_URL'',
     ''friendbot-url'' \<mapsto> ''FRIENDBOT_URL'',
     ''log-level'' \<mapsto> ''LOG_LEVEL'',
     ''log-file'' \<mapsto> ''LOG_FILE'',
     ''max-path-length'' \<mapsto> ''MAX_PATH_LENGTH'',
     ''network-passphrase'' \<mapsto> ''NETWORK_PASSPHRASE'',
     ''sentry-dsn'' \<mapsto> ''SENTRY_DSN'',
     ''loggly-token'' \<mapsto> ''LOGGLY_TOKEN'',
     ''loggly-tag'' \<mapsto> ''LOGGLY_TAG'',
     ''tls-cert'' \<mapsto> ''TLS_CERT'',
     ''tls-key'' \<mapsto> ''TLS_KEY'',
     ''ingest'' \<mapsto> ''INGEST'',
     ''history-retention-count'' \<mapsto> ''HISTORY_RETENTION_COUNT'',
     ''history-stale-threshold'' \<mapsto> ''HISTORY_STALE_THRESHOLD'',
     ''skip-cursor-update'' \<mapsto> ''SKIP_CURSOR_UPDATE'',
     ''enable-asset-stats'' \<mapsto> ''ENABLE_ASSET_STATS'']"
  by (simp add: init_defs opt_def)

lemma pflags_g_start: "pflags (vp g_start) =
    [''db-url'' \<mapsto> DString [],
     ''stellar-core-db-url'' \<mapsto> DString [],
     ''stellar-core-url'' \<mapsto> DString [],
     ''port'' \<mapsto> DInt 8000,
     ''max-db-connections'' \<mapsto> DInt 20,
     ''sse-update-frequency'' \<mapsto> DInt 5,
     ''connection-timeout'' \<mapsto> DInt 55,
     ''per-hour-rate-limit'' \<mapsto> DInt 3600,
     ''rate-limit-redis-key'' \<mapsto> DString [],
     ''redis-url'' \<mapsto> DString [],
     ''friendbot-url'' \<mapsto> DString [],
     ''log-level'' \<mapsto> DString ''info'',
     ''log-file'' \<mapsto> DString [],
     ''max-path-length'' \<mapsto> DUint 4,
     ''network-passphrase'' \<mapsto> DString testPassphrase,
     ''sentry-dsn'' \<mapsto> DString [],
     ''loggly-token'' \<mapsto> DString [],
     ''loggly-tag'' \<mapsto> DString ''horizon'',
     ''tls-cert'' \<mapsto> DString [],
     ''tls-key'' \<mapsto> DString [],
     ''ingest'' \<mapsto> DBool False,
     ''history-retention-count'' \<mapsto> DUint 0,
     ''history-stale-threshold'' \<mapsto> DUint 0,
     ''skip-cursor-update'' \<mapsto> DBool False,
     ''enable-asset-stats'' \<mapsto> DBool False]"
  by (simp add: init_defs opt_def)

lemma defaults_g_start:
  "defaults (vp g_start) = [''port'' \<mapsto> VInt 8000, ''history-retention-count'' \<mapsto> VInt 0]"
  by (simp add: init_defs opt_def)

lemma initOption_tlsProvided: "tlsProvided (snd (initOption co g)) = tlsProvided g"
  by (simp add: initOption_def setFlag_def Let_def)

lemma initLoop_tlsProvided: "tlsProvided (snd (initLoop cos g)) = tlsProvided g"
  by (induction cos arbitrary: g) (simp_all add: initOption_tlsProvided Let_def split_beta)

lemma tlsProvided_g_start: "tlsProvided g_start = 0"
  by (simp add: g_start_def init_def globals_init_def Let_def split_beta initLoop_tlsProvided)

lemmas g_start_simps =
  configOpts_g_start env_g_start pflags_g_start defaults_g_start tlsProvided_g_start

lemmas viper_defs = GetString_def GetInt_def GetBool_def viper_find_def viper_flag_def
  viper_env_def viper_default_def ToString_def ToInt_def ToBool_def flagValue_def defaultString_def

lemmas assert_defs = assertPtrString_def assertPtrInt_def assertPtrBool_def assertPtrUint_def
  assertPtrDuration_def assertPtrLevel_def assertPtrURL_def assertPtrPtrRateQuota_def

lemmas setter_defs = setValue_def callCustom_def setSimpleValue_def setDuration_def setURL_def
  setLogLevel_def setLogFile_def setRateLimit_def incrementTLSFlag_def

subsection \<open>What a resolver changes, and how it can fail\<close>

lemma assert_abort:
  "assertPtrString k = Inl a \<Longrightarrow> a = typePanic"
  "assertPtrInt k = Inl a \<Longrightarrow> a = typePanic"
  "assertPtrBool k = Inl a \<Longrightarrow> a = typePanic"
  "assertPtrUint k = Inl a \<Longrightarrow> a = typePanic"
  "assertPtrDuration k = Inl a \<Longrightarrow> a = typePanic"
  "assertPtrLevel k = Inl a \<Longrightarrow> a = typePanic"
  "assertPtrURL k = Inl a \<Longrightarrow> a = typePanic"
  "assertPtrPtrRateQuota k = Inl a \<Longrightarrow> a = typePanic"
  by (cases k; simp add: assert_defs; fail)+

lemma setSimpleValue_frame:
  "setSimpleValue co w g = Inr g' \<Longrightarrow>
   vp g' = vp g \<and> configOpts g' = configOpts g \<and> tlsProvided g' = tlsProvided g"
  by (cases "configKey co"; cases "flagDefault co")
     (auto simp: setSimpleValue_def bind_eq_Inr_iff)

lemma setSimpleValue_abort: "setSimpleValue co w g = Inl a \<Longrightarrow> a = typePanic"
  by (cases "configKey co"; cases "flagDefault co")
     (auto simp: setSimpleValue_def bind_eq_Inl_iff dest: assert_abort)

lemma callCustom_frame:
  "callCustom f co w g = Inr g' \<Longrightarrow>
   vp g' = vp g \<and> configOpts g' = configOpts g \<and>
   tlsProvided g' =
     tlsProvided g + (if f = IncrementTLSFlag \<and> GetString w (vp g) (name co) \<noteq> [] then 1 else 0)"
  by (cases f)
     (auto simp: callCustom_def setDuration_def setURL_def setLogLevel_def setLogFile_def
        setRateLimit_def incrementTLSFlag_def Let_def bind_eq_Inr_iff
        split: if_splits sum.splits option.splits)

lemma callCustom_abort:
  "callCustom f co w g = Inl a \<Longrightarrow>
   a = typePanic \<or> (\<exists>s. a = Fatal (''Unable to parse URL: '' @ s))
   \<or> (\<exists>s. a = Fatal (''Could not parse log-level: '' @ s)) \<or> a = Fatal ''Failed to log to file''"
  by (cases f)
     (auto simp: callCustom_def setDuration_def setURL_def setLogLevel_def setLogFile_def
        setRateLimit_def incrementTLSFlag_def Let_def bind_eq_Inl_iff
        split: if_splits sum.splits option.splits dest: assert_abort)

lemma setValue_frame:
  "setValue co w g = Inr g' \<Longrightarrow>
   vp g' = vp g \<and> configOpts g' = configOpts g \<and>
   tlsProvided g' =
     tlsProvided g + (if customSetValue co = Some IncrementTLSFlag
                        \<and> GetString w (vp g) (name co) \<noteq> [] then 1 else 0)"
proof (cases "customSetValue co")
  case None
  assume r: "setValue co w g = Inr g'"
  show ?thesis
  proof (cases "configKey co = NilKey")
    case True
    with r None show ?thesis by (simp add: setValue_def)
  next
    case False
    with r None have "setSimpleValue co w g = Inr g'"
      by (cases "configKey co") (simp_all add: setValue_def)
    from setSimpleValue_frame [OF this] None show ?thesis by simp
  qed
next
  case (Some f)
  assume "setValue co w g = Inr g'"
  with Some have "callCustom f co w g = Inr g'" by (simp add: setValue_def)
  from callCustom_frame [OF this] Some show ?thesis by simp
qed

lemma setValue_abort:
  "setValue co w g = Inl a \<Longrightarrow>
   a = typePanic \<or> (\<exists>s. a = Fatal (''Unable to parse URL: '' @ s))
   \<or> (\<exists>s. a = Fatal (''Could not parse log-level: '' @ s)) \<or> a = Fatal ''Failed to log to file''"
proof (cases "customSetValue co")
  case None
  assume r: "setValue co w g = Inl a"
  with None have "setSimpleValue co w g = Inl a"
    by (cases "configKey co") (simp_all add: setValue_def)
  from setSimpleValue_abort [OF this] show ?thesis by simp
next
  case (Some f)
  assume "setValue co w g = Inl a"
  with Some have "callCustom f co w g = Inl a" by (simp add: setValue_def)
  from callCustom_abort [OF this] show ?thesis .
qed

lemma setValueLoop_frame:
  "setValueLoop w cos g = Inr g' \<Longrightarrow>
   vp g' = vp g \<and> configOpts g' = configOpts g \<and>
   tlsProvided g' =
     tlsProvided g + of_nat (length (filter (\<lambda>co. customSetValue co = Some IncrementTLSFlag
                                            \<and> GetString w (vp g) (name co) \<noteq> []) cos))"
proof (induction cos arbitrary: g)
  case Nil
  then show ?case by simp
next
  case (Cons co cos)
  from Cons.prems obtain g1 where s1: "setValue co w g = Inr g1"
    and s2: "setValueLoop w cos g1 = Inr g'"
    by (auto simp: bind_eq_Inr_iff)
  from setValue_frame [OF s1] Cons.IH [OF s2] show ?case by simp
qed

lemma setValueLoop_abort:
  "setValueLoop w cos g = Inl a \<Longrightarrow>
   a = typePanic \<or> (\<exists>s. a = Fatal (''Unable to parse URL: '' @ s))
   \<or> (\<exists>s. a = Fatal (''Could not parse log-level: '' @ s)) \<or> a = Fatal ''Failed to log to file''"
proof (induction cos arbitrary: g)
  case Nil
  then show ?case by simp
next
  case (Cons co cos)
  from Cons.prems have "setValue co w g = Inl a \<or> (\<exists>g1. setValueLoop w cos g1 = Inl a)"
    by (auto simp: bind_eq_Inl_iff)
  then show ?case
  proof
    assume "setValue co w g = Inl a"
    from setValue_abort [OF this] show ?thesis .
  next
    assume "\<exists>g1. setValueLoop w cos g1 = Inl a"
    then obtain g1 where "setValueLoop w cos g1 = Inl a" ..
    from Cons.IH [OF this] show ?thesis .
  qed
qed

lemma setValueLoop_append:
  "setValueLoop w (xs @ ys) g = bind (setValueLoop w xs g) (setValueLoop w ys)"
  by (induction xs arbitrary: g) (simp_all add: bind_def split: sum.splits)

lemma requireLoop_append:
  "requireLoop w v (xs @ ys) = bind (requireLoop w v xs) (\<lambda>_. requireLoop w v ys)"
  by (induction xs) (simp_all add: bind_def split: sum.splits)

lemma requireLoop_passes:
  "(requireLoop w v cos = Inr ()) =
   (\<forall>co \<in> set cos. \<not> (required co \<and> GetString w v (name co) = []))"
  by (induction cos) (auto simp: require_def)

lemma requireLoop_abort:
  "requireLoop w v cos = Inl a \<Longrightarrow> \<exists>s. a = Fatal (''Invalid config: '' @ s)"
  by (induction cos) (auto simp: require_def bind_eq_Inl_iff split: if_splits)

lemma migrationGate_abort: "migrationGate w v = Inl a \<Longrightarrow> \<exists>ms. a = Exit ms 1"
  by (auto simp: migrationGate_def Let_def split: if_splits)

subsection \<open>Arithmetic of the conversions\<close>

lemma sint_eq_0_iff_go_int: "sint x = 0 \<Longrightarrow> x = 0" for x :: go_int
proof -
  assume "sint x = 0"
  then have "word_of_int (sint x) = (0 :: go_int)" by simp
  then show ?thesis by simp
qed

lemma not_sless_zero: "0 \<le>s x \<Longrightarrow> (\<not> 0 <s x) = (x = 0)" for x :: go_int
  using sint_eq_0_iff_go_int [of x] by (auto simp: word_sle_eq word_sless_alt)

lemma uint_uint_conv: "uint (uint_conv x) = sint x mod 2 ^ 64"
  unfolding uint_conv_def uint_word_of_int take_bit_eq_mod by simp

lemma uint_conv_nonneg: "0 \<le> sint x \<Longrightarrow> uint (uint_conv x) = sint x"
  for x :: go_int
  using sint_lt [of x] by (simp add: uint_uint_conv)

lemma uint_conv_neg: "sint x < 0 \<Longrightarrow> uint (uint_conv x) = sint x + 2 ^ 64"
  for x :: go_int
proof -
  assume neg: "sint x < 0"
  have ge: "- (2 ^ 63) \<le> sint x" using sint_ge [of x] by simp
  have "sint x mod 2 ^ 64 = (sint x + 2 ^ 64) mod 2 ^ 64" by simp
  also have "\<dots> = sint x + 2 ^ 64" using neg ge by (intro mod_pos_pos_trivial) simp_all
  finally show ?thesis by (simp add: uint_uint_conv)
qed

subsection \<open>The last stage\<close>

lemma assemble_config:
  "assemble w g = Inr g' \<Longrightarrow>
   RateLimit (config g') =
     (if GetInt w (vp g) ''per-hour-rate-limit'' \<noteq> 0
      then Some \<lparr>MaxRate = PerHour (GetInt w (vp g) ''per-hour-rate-limit''), MaxBurst = 100\<rparr>
      else None)
   \<and> MaxPathLength (config g') = uint_conv (GetInt w (vp g) ''max-path-length'')
   \<and> HistoryRetentionCount (config g') = uint_conv (GetInt w (vp g) ''history-retention-count'')
   \<and> StaleThreshold (config g') = uint_conv (GetInt w (vp g) ''history-stale-threshold'')"
  by (auto simp: assemble_def configLiteral_def Let_def bind_eq_Inr_iff
      split: option.splits if_splits sum.splits)

lemma assemble_abort:
  assumes A: "assemble w g = Inl a"
  shows "(\<exists>s. a = Fatal (''Could not parse log-level: '' @ s))
   \<or> (a = Fatal ''Invalid TLS config: both key and cert must be configured'' \<and> tlsProvided g = 1)
   \<or> a = Fatal ''Failed to log to file''
   \<or> (a = Fatal ''Invalid TLS config: key not configured'' \<and> tlsProvided g \<noteq> 1
        \<and> GetString w (vp g) ''tls-cert'' \<noteq> [] \<and> GetString w (vp g) ''tls-key'' = [])
   \<or> (a = Fatal ''Invalid TLS config: cert not configured'' \<and> tlsProvided g \<noteq> 1
        \<and> GetString w (vp g) ''tls-cert'' = [] \<and> GetString w (vp g) ''tls-key'' \<noteq> [])
   \<or> (\<exists>s. a = Fatal (''Unable to parse URL: '' @ s))"
proof (cases "ParseLevel w (GetString w (vp g) ''log-level'')")
  case None
  with A have "a = Fatal (''Could not parse log-level: '' @ GetString w (vp g) ''log-level'')"
    by (simp add: assemble_def)
  then show ?thesis by blast
next
  case (Some ll)
  show ?thesis
  proof (cases "tlsProvided g = 1")
    case True
    with A Some have "a = Fatal ''Invalid TLS config: both key and cert must be configured''"
      by (simp add: assemble_def validateTLS_def)
    with True show ?thesis by blast
  next
    case one: False
    show ?thesis
    proof (cases "GetString w (vp g) ''log-file'' \<noteq> [] \<and> \<not> OpenFile w (GetString w (vp g) ''log-file'')")
      case True
      with A Some one have "a = Fatal ''Failed to log to file''"
        by (simp add: assemble_def validateTLS_def)
      then show ?thesis by blast
    next
      case lfok: False
      show ?thesis
      proof (cases "GetString w (vp g) ''tls-cert'' \<noteq> [] \<and> GetString w (vp g) ''tls-key'' = []")
        case True
        with A Some one lfok have "a = Fatal ''Invalid TLS config: key not configured''"
          by (simp add: assemble_def validateTLS_def Let_def bind_eq_Inl_iff split: if_splits)
        with True one show ?thesis by blast
      next
        case nokey: False
        show ?thesis
        proof (cases "GetString w (vp g) ''tls-cert'' = [] \<and> GetString w (vp g) ''tls-key'' \<noteq> []")
          case True
          with A Some one lfok have "a = Fatal ''Invalid TLS config: cert not configured''"
            by (simp add: assemble_def validateTLS_def Let_def bind_eq_Inl_iff split: if_splits)
          with True one show ?thesis by blast
        next
          case nocert: False
          from A Some one lfok nokey nocert
          have "\<exists>err. a = Fatal (''Unable to parse URL: '' @ GetString w (vp g) ''friendbot-url''
                   @ ''/'' @ err)"
            by (auto simp add: assemble_def validateTLS_def Let_def bind_eq_Inl_iff
                split: if_splits sum.splits)
          then obtain err where
            "a = Fatal (''Unable to parse URL: '' @ (GetString w (vp g) ''friendbot-url''
                   @ ''/'' @ err))" by auto
          then show ?thesis by blast
        qed
      qed
    qed
  qed
qed

lemma assemble_tls_one:
  "ParseLevel w (GetString w (vp g) ''log-level'') = Some ll \<Longrightarrow> tlsProvided g = 1 \<Longrightarrow>
   assemble w g = Inl (Fatal ''Invalid TLS config: both key and cert must be configured'')"
  by (simp add: assemble_def validateTLS_def)

subsection \<open>Evaluating the concrete runs\<close>

lemmas world_defs = w_ok_def w_blank_pending_def w_env_def w_neg_def w_friendbot_def
  w_cert_only_def w_nolimit_def w_down3_def w_both_def w_pending_def testPassphrase_def

lemmas show_defs = showInt_def showNat.simps digitChar_def showStrings_def dq_def
  parseDecimal_def digitVal_def

lemma require_w_ok: "requireLoop w_ok (vp g_start) (configOpts g_start) = Inr ()"
  by (simp add: g_start_simps opt_def require_def viper_defs world_defs cong: bind_weak_cong)

lemma require_w_pending: "requireLoop w_pending (vp g_start) (configOpts g_start) = Inr ()"
  by (simp add: g_start_simps opt_def require_def viper_defs world_defs cong: bind_weak_cong)

lemma require_w_friendbot: "requireLoop w_friendbot (vp g_start) (configOpts g_start) = Inr ()"
  by (simp add: g_start_simps opt_def require_def viper_defs world_defs cong: bind_weak_cong)

lemma require_w_cert_only: "requireLoop w_cert_only (vp g_start) (configOpts g_start) = Inr ()"
  by (simp add: g_start_simps opt_def require_def viper_defs world_defs cong: bind_weak_cong)

lemma require_w_blank_pending:
  "requireLoop w_blank_pending (vp g_start) (configOpts g_start) =
     Inl (Fatal (''Invalid config: db-url is blank. Please specify --db-url on the ''
       @ ''command line or set the DATABASE_URL environment variable.''))"
  by (simp add: g_start_simps opt_def require_def viper_defs world_defs cong: bind_weak_cong)

lemma require_w_env:
  "requireLoop w_env (vp g_start) (configOpts g_start) =
     Inl (Fatal (''Invalid config: db-url is blank. Please specify --db-url on the ''
       @ ''command line or set the DATABASE_URL environment variable.''))"
  by (simp add: g_start_simps opt_def require_def viper_defs world_defs cong: bind_weak_cong)

lemma gate_passes:
  "migrationGate w_ok (vp g_start) = Inr ()"
  "migrationGate w_friendbot (vp g_start) = Inr ()"
  "migrationGate w_cert_only (vp g_start) = Inr ()"
  by (simp_all add: migrationGate_def world_defs)

lemma setValueLoop_w_ok:
  "\<exists>g1. setValueLoop w_ok (configOpts g_start) g_start = Inr g1"
  by (simp add: g_start_simps opt_def setter_defs assert_defs viper_defs world_defs Let_def
      cong: bind_weak_cong)

lemma setValueLoop_w_cert_only:
  "\<exists>g1. setValueLoop w_cert_only (configOpts g_start) g_start = Inr g1"
  by (simp add: g_start_simps opt_def setter_defs assert_defs viper_defs world_defs Let_def
      cong: bind_weak_cong)

lemma setValueLoop_w_friendbot:
  "setValueLoop w_friendbot (configOpts g_start) g_start = Inl (Panic ''interface conversion'')"
  by (simp add: g_start_simps opt_def setter_defs assert_defs typePanic_def viper_defs world_defs
      Let_def cong: bind_weak_cong)

lemma GetInt_rate_w_ok: "GetInt w_ok (vp g_start) ''per-hour-rate-limit'' = 3600"
  by (simp add: g_start_simps viper_defs world_defs show_defs)

lemma GetInt_rate_w_nolimit: "GetInt w_nolimit (vp g_start) ''per-hour-rate-limit'' = 0"
  by (simp add: g_start_simps viper_defs world_defs show_defs)

lemma GetInt_path_w_ok: "GetInt w_ok (vp g_start) ''max-path-length'' = 4"
  by (simp add: g_start_simps viper_defs world_defs show_defs)

lemma GetInt_path_w_neg: "GetInt w_neg (vp g_start) ''max-path-length'' = - 1"
  by (simp add: g_start_simps viper_defs world_defs show_defs)

lemma GetString_tls_w_ok:
  "GetString w_ok (vp g_start) ''tls-cert'' = []"
  "GetString w_ok (vp g_start) ''tls-key'' = []"
  "GetString w_ok (vp g_start) ''log-file'' = []"
  "GetString w_ok (vp g_start) ''friendbot-url'' = []"
  "GetString w_ok (vp g_start) ''log-level'' = ''info''"
  by (simp_all add: g_start_simps viper_defs world_defs)

lemma ParseLevel_w_ok: "ParseLevel w_ok ''info'' = Some InfoLevel"
  by (simp add: world_defs)

lemma assemble_w_ok: "\<exists>g'. assemble w_ok g_start = Inr g'"
  by (simp add: assemble_def GetString_tls_w_ok ParseLevel_w_ok tlsProvided_g_start
      validateTLS_def Let_def)

subsection \<open>The outcomes of initConfig\<close>

lemma initConfig_abort:
  assumes "initConfig w g = Inl a"
  shows "(\<exists>s. a = Fatal (''Invalid config: '' @ s)) \<or> (\<exists>ms. a = Exit ms 1) \<or> a = typePanic
    \<or> (\<exists>s. a = Fatal (''Unable to parse URL: '' @ s))
    \<or> (\<exists>s. a = Fatal (''Could not parse log-level: '' @ s))
    \<or> a = Fatal ''Failed to log to file'' \<or> a = Fatal ''Died here''
    \<or> (\<exists>g1. setValueLoop w (configOpts g) g = Inr g1 \<and> assemble w g1 = Inl a)"
proof -
  from assms consider
      (req) "requireLoop w (vp g) (configOpts g) = Inl a"
    | (gate) "migrationGate w (vp g) = Inl a"
    | (loop) "setValueLoop w (configOpts g) g = Inl a"
    | (asm) g1 where "setValueLoop w (configOpts g) g = Inr g1" "assemble w g1 = Inl a"
    | (died) "a = Fatal ''Died here''"
    by (auto simp: initConfig_def resolveConfig_def bind_eq_Inl_iff)
  then show ?thesis
  proof cases
    case req
    from requireLoop_abort [OF this] show ?thesis by blast
  next
    case gate
    from migrationGate_abort [OF this] show ?thesis by blast
  next
    case loop
    from setValueLoop_abort [OF this] show ?thesis by blast
  next
    case asm
    then show ?thesis by blast
  next
    case died
    then show ?thesis by blast
  qed
qed

lemma initConfig_stages:
  "requireLoop w (vp g) (configOpts g) = Inl a \<Longrightarrow> initConfig w g = Inl a"
  "requireLoop w (vp g) (configOpts g) = Inr () \<Longrightarrow> migrationGate w (vp g) = Inl a
    \<Longrightarrow> initConfig w g = Inl a"
  "requireLoop w (vp g) (configOpts g) = Inr () \<Longrightarrow> migrationGate w (vp g) = Inr ()
    \<Longrightarrow> setValueLoop w (configOpts g) g = Inl a \<Longrightarrow> initConfig w g = Inl a"
  "requireLoop w (vp g) (configOpts g) = Inr () \<Longrightarrow> migrationGate w (vp g) = Inr ()
    \<Longrightarrow> setValueLoop w (configOpts g) g = Inr g1 \<Longrightarrow> assemble w g1 = Inl a
    \<Longrightarrow> initConfig w g = Inl a"
  "requireLoop w (vp g) (configOpts g) = Inr () \<Longrightarrow> migrationGate w (vp g) = Inr ()
    \<Longrightarrow> setValueLoop w (configOpts g) g = Inr g1 \<Longrightarrow> assemble w g1 = Inr g2
    \<Longrightarrow> resolveConfig w g = Inr g2 \<and> initConfig w g = Inl (Fatal ''Died here'')"
  by (simp_all add: initConfig_def resolveConfig_def)

lemma initConfig_never_Inr: "initConfig w g \<noteq> Inr g'"
  by (cases "resolveConfig w g") (simp_all add: initConfig_def)

subsection \<open>The TLS counter over the table\<close>

lemma tls_count_table:
  "length (filter (\<lambda>co. customSetValue co = Some IncrementTLSFlag
                          \<and> GetString w v (name co) \<noteq> []) (configOpts g_start))
   = (if GetString w v ''tls-cert'' \<noteq> [] then 1 else 0)
     + (if GetString w v ''tls-key'' \<noteq> [] then 1 else 0)"
  by (simp add: configOpts_g_start opt_def)

lemma tlsProvided_after_loop:
  assumes "configOpts g = configOpts g_start" "tlsProvided g = 0"
    and "setValueLoop w (configOpts g) g = Inr g1"
  shows "vp g1 = vp g"
    and "(tlsProvided g1 = 1) =
         ((GetString w (vp g) ''tls-cert'' = []) \<noteq> (GetString w (vp g) ''tls-key'' = []))"
proof -
  from setValueLoop_frame [OF assms(3)] show "vp g1 = vp g" by simp
  from setValueLoop_frame [OF assms(3)] assms(1,2)
  have "tlsProvided g1 =
      of_nat ((if GetString w (vp g) ''tls-cert'' \<noteq> [] then 1 else 0)
     + (if GetString w (vp g) ''tls-key'' \<noteq> [] then 1 else 0))"
    by (simp only: tls_count_table) simp
  then show "(tlsProvided g1 = 1) =
         ((GetString w (vp g) ''tls-cert'' = []) \<noteq> (GetString w (vp g) ''tls-key'' = []))"
    by (cases "GetString w (vp g) ''tls-cert'' = []"; cases "GetString w (vp g) ''tls-key'' = []")
       simp_all
qed

subsection \<open>The concrete runs, end to end\<close>

lemma GetString_w_cert_only:
  "GetString w_cert_only (vp g_start) ''tls-cert'' = ''horizon.crt''"
  "GetString w_cert_only (vp g_start) ''tls-key'' = []"
  "GetString w_cert_only (vp g_start) ''log-level'' = ''info''"
  by (simp_all add: g_start_simps viper_defs world_defs)

lemma ParseLevel_w_cert_only: "ParseLevel w_cert_only ''info'' = Some InfoLevel"
  by (simp add: world_defs)

lemma initConfig_w_cert_only:
  "initConfig w_cert_only g_start =
     Inl (Fatal ''Invalid TLS config: both key and cert must be configured'')"
proof -
  from setValueLoop_w_cert_only obtain g1
    where loop: "setValueLoop w_cert_only (configOpts g_start) g_start = Inr g1" ..
  from tlsProvided_after_loop [OF refl tlsProvided_g_start loop]
  have "vp g1 = vp g_start" "tlsProvided g1 = 1"
    by (simp_all add: GetString_w_cert_only)
  then have "assemble w_cert_only g1 =
      Inl (Fatal ''Invalid TLS config: both key and cert must be configured'')"
    by (intro assemble_tls_one [of _ _ InfoLevel])
       (simp_all add: GetString_w_cert_only ParseLevel_w_cert_only)
  from initConfig_stages(4) [OF require_w_cert_only gate_passes(3) loop this]
  show ?thesis .
qed

lemma initConfig_w_friendbot:
  "initConfig w_friendbot g_start = Inl (Panic ''interface conversion'')"
  by (rule initConfig_stages(3) [OF require_w_friendbot gate_passes(2) setValueLoop_w_friendbot])

lemma resolveConfig_w_ok:
  "(\<exists>g'. resolveConfig w_ok g_start = Inr g') \<and> initConfig w_ok g_start = Inl (Fatal ''Died here'')"
proof -
  from setValueLoop_w_ok obtain g1
    where loop: "setValueLoop w_ok (configOpts g_start) g_start = Inr g1" ..
  from tlsProvided_after_loop [OF refl tlsProvided_g_start loop]
  have g1: "vp g1 = vp g_start" "tlsProvided g1 \<noteq> 1"
    by (simp_all add: GetString_tls_w_ok)
  then have "\<exists>g2. assemble w_ok g1 = Inr g2"
    by (simp add: assemble_def GetString_tls_w_ok ParseLevel_w_ok validateTLS_def Let_def)
  then obtain g2 where "assemble w_ok g1 = Inr g2" ..
  from initConfig_stages(5) [OF require_w_ok gate_passes(1) loop this]
  show ?thesis by blast
qed

section \<open>The claims\<close>

text \<open>
  C9. For every descriptor with \<open>required = true\<close>, the required-field check fails
  fatally exactly when the effective string form of the option's value is empty, and the
  message names the flag (the descriptor's name) and the environment variable (its
  \<open>envVar\<close>); a descriptor with \<open>required = false\<close> never fails it. The loop over
  the table passes exactly when no required option is blank.
\<close>

theorem require_spec:
  "((\<exists>m. require w v co = Inl (Fatal m)) = (required co \<and> GetString w v (name co) = []))
   \<and> (required co \<and> GetString w v (name co) = [] \<longrightarrow>
        require w v co =
          Inl (Fatal (''Invalid config: '' @ name co @ '' is blank. Please specify --'' @ name co
                      @ '' on the command line or set the '' @ envVar co
                      @ '' environment variable.'')))
   \<and> (\<not> required co \<longrightarrow> require w v co = Inr ())
   \<and> (required co \<and> GetString w v (name co) \<noteq> [] \<longrightarrow> require w v co = Inr ())
   \<and> ((requireLoop w v cos = Inr ()) =
        (\<forall>co \<in> set cos. \<not> (required co \<and> GetString w v (name co) = [])))"
  using requireLoop_passes [of w v cos] by (simp add: require_def)

theorem require_spec_witness:
  "require w_blank_pending (vp g_start)
     (opt ''db-url'' ''DATABASE_URL'' (PtrString (\<lambda>v. DatabaseURL_update (\<lambda>_. v)))
        (DString []) True None)
     = Inl (Fatal (''Invalid config: db-url is blank. Please specify --db-url on the ''
         @ ''command line or set the DATABASE_URL environment variable.''))
   \<and> require w_ok (vp g_start)
     (opt ''db-url'' ''DATABASE_URL'' (PtrString (\<lambda>v. DatabaseURL_update (\<lambda>_. v)))
        (DString []) True None)
     = Inr ()
   \<and> require w_blank_pending (vp g_start)
     (opt ''redis-url'' ''REDIS_URL'' (PtrString (\<lambda>v. RedisURL_update (\<lambda>_. v)))
        (DString []) False None)
     = Inr ()
   \<and> requireLoop w_blank_pending (vp g_start)
     [opt ''db-url'' ''DATABASE_URL'' (PtrString (\<lambda>v. DatabaseURL_update (\<lambda>_. v)))
        (DString []) True None]
     \<noteq> Inr ()"
proof -
  have blank: "GetString w_blank_pending (vp g_start) ''db-url'' = []"
    by (simp add: g_start_simps viper_defs world_defs)
  have given: "GetString w_ok (vp g_start) ''db-url'' \<noteq> []"
    by (simp add: g_start_simps viper_defs world_defs)
  show ?thesis
    using blank given
      require_spec [of w_blank_pending "vp g_start"
        "opt ''db-url'' ''DATABASE_URL'' (PtrString (\<lambda>v. DatabaseURL_update (\<lambda>_. v)))
           (DString []) True None"
        "[opt ''db-url'' ''DATABASE_URL'' (PtrString (\<lambda>v. DatabaseURL_update (\<lambda>_. v)))
           (DString []) True None]"]
      require_spec [of w_ok "vp g_start"
        "opt ''db-url'' ''DATABASE_URL'' (PtrString (\<lambda>v. DatabaseURL_update (\<lambda>_. v)))
           (DString []) True None" "[]"]
      require_spec [of w_blank_pending "vp g_start"
        "opt ''redis-url'' ''REDIS_URL'' (PtrString (\<lambda>v. RedisURL_update (\<lambda>_. v)))
           (DString []) False None" "[]"]
    by (simp add: opt_def)
qed

text \<open>
  C7, as the code has it. The startup gate aborts the process whenever the pending-up
  migration count is greater than zero, citing the count of pending migrations and the
  migrate-up command, whatever the pending-down count is. It aborts whenever the
  pending-down count is greater than zero; the abort cites the downgrade command with
  that count when the pending-up count is zero, since the down query is made only after
  the up check has passed. It lets resolution proceed (to the loop of resolvers) exactly
  when both counts are zero.
\<close>

theorem migrationGate_spec:
  "(0 < length (GetMigrationsUp w (GetString w v ''db-url'')) \<longrightarrow>
      migrationGate w v =
        Inl (Exit
          [''There are '' @ showNat (length (GetMigrationsUp w (GetString w v ''db-url'')))
             @ '' migrations to apply in the '' @ dq @ ''up'' @ dq @ '' direction.'',
           ''The necessary migrations are: ''
             @ showStrings (GetMigrationsUp w (GetString w v ''db-url'')),
           ''A database migration is required to run this version ('' @ Version w
             @ '') of Horizon. Run '' @ dq @ ''horizon db migrate up'' @ dq
             @ '' to update your DB. Consult the Changelog ''
             @ ''(https://github.com/stellar/horizon/blob/master/CHANGELOG.md) ''
             @ ''for more information.''] 1))
   \<and> (0 <s GetNumMigrationsDown w (GetString w v ''db-url'') \<longrightarrow>
        (\<exists>ms. migrationGate w v = Inl (Exit ms 1)))
   \<and> (length (GetMigrationsUp w (GetString w v ''db-url'')) = 0
        \<and> 0 <s GetNumMigrationsDown w (GetString w v ''db-url'') \<longrightarrow>
      migrationGate w v =
        Inl (Exit
             [''A database migration DOWN to an earlier version of the schema is required ''
                @ ''to run this version ('' @ Version w @ '') of Horizon. Consult the ''
                @ ''Changelog (https://github.com/stellar/horizon/blob/master/CHANGELOG.md) ''
                @ ''for more information.'',
              ''In order to migrate the database DOWN, using the HIGHEST version number of ''
                @ ''Horizon you have installed (not this binary), run '' @ dq
                @ ''horizon db migrate down ''
                @ showInt (sint (GetNumMigrationsDown w (GetString w v ''db-url''))) @ dq
                @ ''.''] 1))
   \<and> (0 \<le>s GetNumMigrationsDown w (GetString w v ''db-url'') \<longrightarrow>
        (migrationGate w v = Inr ()) =
        (length (GetMigrationsUp w (GetString w v ''db-url'')) = 0
         \<and> GetNumMigrationsDown w (GetString w v ''db-url'') = 0))
   \<and> (migrationGate w (vp g) = Inr () \<and> requireLoop w (vp g) (configOpts g) = Inr () \<longrightarrow>
        resolveConfig w g = bind (setValueLoop w (configOpts g) g) (assemble w))"
  using not_sless_zero [of "GetNumMigrationsDown w (GetString w v ''db-url'')"]
  by (auto simp: migrationGate_def Let_def resolveConfig_def)

theorem migrationGate_spec_witness:
  "migrationGate w_pending (vp g_start) =
     Inl (Exit
       [''There are 1 migrations to apply in the '' @ dq @ ''up'' @ dq @ '' direction.'',
        ''The necessary migrations are: [8_create_asset_stats_table.sql]'',
        ''A database migration is required to run this version (0.13.0) of Horizon. Run ''
          @ dq @ ''horizon db migrate up'' @ dq @ '' to update your DB. Consult the Changelog ''
          @ ''(https://github.com/stellar/horizon/blob/master/CHANGELOG.md) ''
          @ ''for more information.''] 1)
   \<and> migrationGate w_down3 (vp g_start) =
     Inl (Exit
       [''A database migration DOWN to an earlier version of the schema is required ''
          @ ''to run this version (0.13.0) of Horizon. Consult the ''
          @ ''Changelog (https://github.com/stellar/horizon/blob/master/CHANGELOG.md) ''
          @ ''for more information.'',
        ''In order to migrate the database DOWN, using the HIGHEST version number of ''
          @ ''Horizon you have installed (not this binary), run '' @ dq
          @ ''horizon db migrate down 3'' @ dq @ ''.''] 1)
   \<and> migrationGate w_ok (vp g_start) = Inr ()
   \<and> resolveConfig w_ok g_start = bind (setValueLoop w_ok (configOpts g_start) g_start) (assemble w_ok)"
proof -
  have up: "GetMigrationsUp w_pending (GetString w_pending (vp g_start) ''db-url'')
      = [''8_create_asset_stats_table.sql'']"
    and v: "Version w_pending = ''0.13.0''" "Version w_down3 = ''0.13.0''"
    and down: "GetNumMigrationsDown w_down3 (GetString w_down3 (vp g_start) ''db-url'') = 3"
    and up0: "GetMigrationsUp w_down3 (GetString w_down3 (vp g_start) ''db-url'') = []"
      "GetMigrationsUp w_ok (GetString w_ok (vp g_start) ''db-url'') = []"
    and down0: "GetNumMigrationsDown w_ok (GetString w_ok (vp g_start) ''db-url'') = 0"
    by (simp_all add: world_defs)
  have pos: "0 <s (3 :: go_int)" "0 \<le>s (0 :: go_int)"
    by (simp_all add: word_sless_alt word_sle_eq)
  show ?thesis
    using pos migrationGate_spec [of w_pending "vp g_start" g_start]
      migrationGate_spec [of w_down3 "vp g_start" g_start]
      migrationGate_spec [of w_ok "vp g_start" g_start]
      require_w_ok
    by (simp add: up v down up0 down0 show_defs)
qed

text \<open>
  C7 as stated fails where both directions are pending: with two migrations to apply up
  and three down, the gate exits with the three lines about the up direction, and the
  downgrade command is not cited.
\<close>

theorem migrationGate_spec_counterexample:
  "0 <s GetNumMigrationsDown w_both (GetString w_both (vp g_start) ''db-url'')
   \<and> sint (GetNumMigrationsDown w_both (GetString w_both (vp g_start) ''db-url'')) = 3
   \<and> length (GetMigrationsUp w_both (GetString w_both (vp g_start) ''db-url'')) = 2
   \<and> migrationGate w_both (vp g_start) =
     Inl (Exit
       [''There are 2 migrations to apply in the '' @ dq @ ''up'' @ dq @ '' direction.'',
        ''The necessary migrations are: ''
          @ ''[7_modify_trades_table.sql 8_create_asset_stats_table.sql]'',
        ''A database migration is required to run this version (0.13.0) of Horizon. Run ''
          @ dq @ ''horizon db migrate up'' @ dq @ '' to update your DB. Consult the Changelog ''
          @ ''(https://github.com/stellar/horizon/blob/master/CHANGELOG.md) ''
          @ ''for more information.''] 1)
   \<and> migrationGate w_both (vp g_start) \<noteq>
     Inl (Exit
       [''A database migration DOWN to an earlier version of the schema is required ''
          @ ''to run this version (0.13.0) of Horizon. Consult the ''
          @ ''Changelog (https://github.com/stellar/horizon/blob/master/CHANGELOG.md) ''
          @ ''for more information.'',
        ''In order to migrate the database DOWN, using the HIGHEST version number of ''
          @ ''Horizon you have installed (not this binary), run '' @ dq
          @ ''horizon db migrate down 3'' @ dq @ ''.''] 1)"
proof -
  have down: "GetNumMigrationsDown w_both (GetString w_both (vp g_start) ''db-url'') = 3"
    and up: "GetMigrationsUp w_both (GetString w_both (vp g_start) ''db-url'')
      = [''7_modify_trades_table.sql'', ''8_create_asset_stats_table.sql'']"
    and v: "Version w_both = ''0.13.0''"
    by (simp_all add: world_defs)
  have pos: "0 <s (3 :: go_int)" by (simp add: word_sless_alt)
  have run: "migrationGate w_both (vp g_start) =
     Inl (Exit
       [''There are 2 migrations to apply in the '' @ dq @ ''up'' @ dq @ '' direction.'',
        ''The necessary migrations are: ''
          @ ''[7_modify_trades_table.sql 8_create_asset_stats_table.sql]'',
        ''A database migration is required to run this version (0.13.0) of Horizon. Run ''
          @ dq @ ''horizon db migrate up'' @ dq @ '' to update your DB. Consult the Changelog ''
          @ ''(https://github.com/stellar/horizon/blob/master/CHANGELOG.md) ''
          @ ''for more information.''] 1)"
    by (simp add: migrationGate_def up v show_defs)
  show ?thesis
    using pos by (simp add: run down up)
qed

text \<open>
  C6. For every integer input to the rate-limit resolver: input 0 yields no rate-limit
  policy (\<open>setRateLimit\<close> leaves the destination as it was, and the configuration
  \<open>initConfig\<close> assembles has none), and every non-zero input \<open>n\<close> yields a rate-quota
  policy whose rate is \<open>n\<close> per hour and whose burst is exactly 100.
\<close>

theorem setRateLimit_spec:
  "(GetInt w (vp g) (name co) = 0 \<longrightarrow> setRateLimit co w g = Inr g)
   \<and> (GetInt w (vp g) (name co) \<noteq> 0
        \<and> configKey co = PtrPtrRateQuota (\<lambda>v. RateLimit_update (\<lambda>_. v)) \<longrightarrow>
        setRateLimit co w g =
          Inr (g\<lparr>c_global := (c_global g)
                 \<lparr>RateLimit := Some \<lparr>MaxRate = PerHour (GetInt w (vp g) (name co)),
                                      MaxBurst = 100\<rparr>\<rparr>\<rparr>))
   \<and> (\<forall>g'. assemble w g = Inr g' \<longrightarrow>
        RateLimit (config g') =
          (if GetInt w (vp g) ''per-hour-rate-limit'' = 0 then None
           else Some \<lparr>MaxRate = PerHour (GetInt w (vp g) ''per-hour-rate-limit''),
                      MaxBurst = 100\<rparr>))"
  using assemble_config [of w g]
  by (auto simp: setRateLimit_def Let_def assertPtrPtrRateQuota_def)

theorem setRateLimit_spec_witness:
  "setRateLimit
     (opt ''per-hour-rate-limit'' ''PER_HOUR_RATE_LIMIT''
        (PtrPtrRateQuota (\<lambda>v. RateLimit_update (\<lambda>_. v))) (DInt 3600) False (Some SetRateLimit))
     w_nolimit g_start = Inr g_start
   \<and> setRateLimit
     (opt ''per-hour-rate-limit'' ''PER_HOUR_RATE_LIMIT''
        (PtrPtrRateQuota (\<lambda>v. RateLimit_update (\<lambda>_. v))) (DInt 3600) False (Some SetRateLimit))
     w_ok g_start =
       Inr (g_start\<lparr>c_global := (c_global g_start)
              \<lparr>RateLimit := Some \<lparr>MaxRate = PerHour 3600, MaxBurst = 100\<rparr>\<rparr>\<rparr>)
   \<and> (\<exists>g'. assemble w_ok g_start = Inr g'
          \<and> RateLimit (config g') = Some \<lparr>MaxRate = PerHour 3600, MaxBurst = 100\<rparr>)"
proof -
  let ?co = "opt ''per-hour-rate-limit'' ''PER_HOUR_RATE_LIMIT''
        (PtrPtrRateQuota (\<lambda>v. RateLimit_update (\<lambda>_. v))) (DInt 3600) False (Some SetRateLimit)"
  have n: "name ?co = ''per-hour-rate-limit''"
    and k: "configKey ?co = PtrPtrRateQuota (\<lambda>v. RateLimit_update (\<lambda>_. v))"
    by (simp_all add: opt_def)
  from assemble_w_ok obtain g' where a: "assemble w_ok g_start = Inr g'" ..
  have "RateLimit (config g') = Some \<lparr>MaxRate = PerHour 3600, MaxBurst = 100\<rparr>"
    using setRateLimit_spec [of w_ok g_start ?co] a by (simp add: GetInt_rate_w_ok)
  with a have third: "\<exists>g'. assemble w_ok g_start = Inr g'
          \<and> RateLimit (config g') = Some \<lparr>MaxRate = PerHour 3600, MaxBurst = 100\<rparr>"
    by blast
  have first: "setRateLimit ?co w_nolimit g_start = Inr g_start"
    using setRateLimit_spec [of w_nolimit g_start ?co] by (simp add: n GetInt_rate_w_nolimit)
  have second: "setRateLimit ?co w_ok g_start =
       Inr (g_start\<lparr>c_global := (c_global g_start)
              \<lparr>RateLimit := Some \<lparr>MaxRate = PerHour 3600, MaxBurst = 100\<rparr>\<rparr>\<rparr>)"
    using setRateLimit_spec [of w_ok g_start ?co] by (simp add: n k GetInt_rate_w_ok)
  from first second third show ?thesis by blast
qed

text \<open>
  C4, as the code has it. For every descriptor whose default is an unsigned integer,
  resolution reads the value with the signed getter \<open>viper.GetInt\<close> and converts it with
  the plain conversion \<open>uint(..)\<close>, in \<open>setSimpleValue\<close> and in the struct literal alike.
  The conversion has no range check: a value that is not negative is stored as it is, a
  negative value \<open>n\<close> is stored as \<open>2^64 + n\<close>.
\<close>

theorem unsigned_resolution:
  "(flagDefault co = DUint d \<and> configKey co = PtrUint st \<longrightarrow>
      setSimpleValue co w g =
        Inr (g\<lparr>c_global := st (uint_conv (GetInt w (vp g) (name co))) (c_global g)\<rparr>))
   \<and> (\<forall>g'. assemble w g = Inr g' \<longrightarrow>
        MaxPathLength (config g') = uint_conv (GetInt w (vp g) ''max-path-length'')
        \<and> HistoryRetentionCount (config g') = uint_conv (GetInt w (vp g) ''history-retention-count'')
        \<and> StaleThreshold (config g') = uint_conv (GetInt w (vp g) ''history-stale-threshold''))
   \<and> (0 \<le> sint x \<longrightarrow> uint (uint_conv x) = sint x)
   \<and> (sint x < 0 \<longrightarrow> uint (uint_conv x) = sint x + 2 ^ 64)"
  using assemble_config [of w g] uint_conv_nonneg [of x] uint_conv_neg [of x]
  by (auto simp: setSimpleValue_def assertPtrUint_def)

theorem unsigned_resolution_witness:
  "setSimpleValue
     (opt ''max-path-length'' ''MAX_PATH_LENGTH'' (PtrUint (\<lambda>v. MaxPathLength_update (\<lambda>_. v)))
        (DUint 4) False None) w_ok g_start =
       Inr (g_start\<lparr>c_global := (c_global g_start)\<lparr>MaxPathLength := 4\<rparr>\<rparr>)
   \<and> (\<exists>g'. assemble w_ok g_start = Inr g' \<and> MaxPathLength (config g') = 4)
   \<and> uint (uint_conv 4) = 4
   \<and> uint (uint_conv (- 1)) = 18446744073709551615"
proof -
  let ?co = "opt ''max-path-length'' ''MAX_PATH_LENGTH''
        (PtrUint (\<lambda>v. MaxPathLength_update (\<lambda>_. v))) (DUint 4) False None"
  have co: "name ?co = ''max-path-length''" "flagDefault ?co = DUint 4"
    "configKey ?co = PtrUint (\<lambda>v. MaxPathLength_update (\<lambda>_. v))"
    by (simp_all add: opt_def)
  have four: "uint_conv 4 = 4" by (simp add: uint_conv_def)
  from assemble_w_ok obtain g' where a: "assemble w_ok g_start = Inr g'" ..
  have "MaxPathLength (config g') = 4"
    using unsigned_resolution [of ?co 4 "\<lambda>v. MaxPathLength_update (\<lambda>_. v)" w_ok g_start 4] a
    by (simp add: GetInt_path_w_ok four)
  with a have second: "\<exists>g'. assemble w_ok g_start = Inr g' \<and> MaxPathLength (config g') = 4"
    by blast
  have first: "setSimpleValue ?co w_ok g_start =
       Inr (g_start\<lparr>c_global := (c_global g_start)\<lparr>MaxPathLength := 4\<rparr>\<rparr>)"
    using unsigned_resolution [of ?co 4 "\<lambda>v. MaxPathLength_update (\<lambda>_. v)" w_ok g_start 4]
    by (simp add: co GetInt_path_w_ok four)
  have third: "uint (uint_conv 4) = 4"
    using unsigned_resolution [of ?co 4 "\<lambda>v. MaxPathLength_update (\<lambda>_. v)" w_ok g_start 4]
    by simp
  have fourth: "uint (uint_conv (- 1)) = 18446744073709551615"
    using unsigned_resolution [of ?co 4 "\<lambda>v. MaxPathLength_update (\<lambda>_. v)" w_ok g_start "- 1"]
    by simp
  from first second third fourth show ?thesis by blast
qed

text \<open>
  C4 as stated fails: \<open>MAX_PATH_LENGTH=-1\<close> in the environment is read as the integer
  \<open>-1\<close> and stored, without any failure, as \<open>18446744073709551615\<close>.
\<close>

theorem unsigned_resolution_counterexample:
  "GetString w_neg (vp g_start) ''max-path-length'' = ''-1''
   \<and> sint (GetInt w_neg (vp g_start) ''max-path-length'') = - 1
   \<and> setSimpleValue
     (opt ''max-path-length'' ''MAX_PATH_LENGTH'' (PtrUint (\<lambda>v. MaxPathLength_update (\<lambda>_. v)))
        (DUint 4) False None) w_neg g_start =
       Inr (g_start\<lparr>c_global := (c_global g_start)\<lparr>MaxPathLength := 18446744073709551615\<rparr>\<rparr>)"
proof -
  have s: "GetString w_neg (vp g_start) ''max-path-length'' = ''-1''"
    by (simp add: g_start_simps viper_defs world_defs)
  have "uint_conv (- 1) = 18446744073709551615" by (simp add: uint_conv_def)
  then show ?thesis
    using s by (simp add: GetInt_path_w_neg setSimpleValue_def assertPtrUint_def opt_def)
qed

text \<open>
  C5, as the code has it. With the table as registered and the counter starting at 0,
  TLS validation is fatal exactly when exactly one of \<open>tls-cert\<close> and \<open>tls-key\<close> is a
  non-empty string: after the loop of resolvers \<open>validateTLS\<close> passes when both are
  empty or both are non-empty and fails otherwise. The failure is the one of
  \<open>validateTLS\<close>, whose message is the same for both half-configured cases and names
  neither half; the later switch, whose messages name the missing half, is never the
  reported failure of \<open>initConfig\<close>.
\<close>

theorem tls_validation:
  "configOpts g = configOpts g_start \<and> tlsProvided g = 0 \<longrightarrow>
     (\<forall>g1. setValueLoop w (configOpts g) g = Inr g1 \<longrightarrow>
        validateTLS (tlsProvided g1) =
          (if (GetString w (vp g) ''tls-cert'' = []) = (GetString w (vp g) ''tls-key'' = [])
           then Inr ()
           else Inl (Fatal ''Invalid TLS config: both key and cert must be configured'')))
     \<and> (\<forall>g1 ll. (GetString w (vp g) ''tls-cert'' = []) \<noteq> (GetString w (vp g) ''tls-key'' = [])
          \<and> requireLoop w (vp g) (configOpts g) = Inr () \<and> migrationGate w (vp g) = Inr ()
          \<and> setValueLoop w (configOpts g) g = Inr g1
          \<and> ParseLevel w (GetString w (vp g) ''log-level'') = Some ll \<longrightarrow>
          initConfig w g = Inl (Fatal ''Invalid TLS config: both key and cert must be configured''))
     \<and> ((GetString w (vp g) ''tls-cert'' = []) = (GetString w (vp g) ''tls-key'' = []) \<longrightarrow>
          initConfig w g \<noteq> Inl (Fatal ''Invalid TLS config: both key and cert must be configured''))
     \<and> initConfig w g \<noteq> Inl (Fatal ''Invalid TLS config: key not configured'')
     \<and> initConfig w g \<noteq> Inl (Fatal ''Invalid TLS config: cert not configured'')"
proof (intro impI, elim conjE)
  assume T: "configOpts g = configOpts g_start" and Z: "tlsProvided g = 0"
  let ?cert = "GetString w (vp g) ''tls-cert''" and ?key = "GetString w (vp g) ''tls-key''"
  note after = tlsProvided_after_loop [OF T Z]
  have validate: "validateTLS (tlsProvided g1) =
          (if (?cert = []) = (?key = []) then Inr ()
           else Inl (Fatal ''Invalid TLS config: both key and cert must be configured''))"
    if "setValueLoop w (configOpts g) g = Inr g1" for g1
    using after(2) [OF that] by (auto simp: validateTLS_def)
  have half: "initConfig w g = Inl (Fatal ''Invalid TLS config: both key and cert must be configured'')"
    if "(?cert = []) \<noteq> (?key = [])" "requireLoop w (vp g) (configOpts g) = Inr ()"
      "migrationGate w (vp g) = Inr ()" "setValueLoop w (configOpts g) g = Inr g1"
      "ParseLevel w (GetString w (vp g) ''log-level'') = Some ll" for g1 ll
  proof -
    from after [OF that(4)] that(1) have g1: "vp g1 = vp g" "tlsProvided g1 = 1" by simp_all
    with that(5) have "assemble w g1 =
        Inl (Fatal ''Invalid TLS config: both key and cert must be configured'')"
      by (intro assemble_tls_one [of _ _ ll]) simp_all
    from initConfig_stages(4) [OF that(2) that(3) that(4) this] show ?thesis .
  qed
  have reach: "\<exists>g1. setValueLoop w (configOpts g) g = Inr g1 \<and> assemble w g1 = Inl (Fatal m)"
    if "initConfig w g = Inl (Fatal m)"
      and "m = ''Invalid TLS config: both key and cert must be configured''
           \<or> m = ''Invalid TLS config: key not configured''
           \<or> m = ''Invalid TLS config: cert not configured''" for m
    using initConfig_abort [OF that(1)] that(2) by (auto simp: typePanic_def)
  have both: "initConfig w g \<noteq> Inl (Fatal ''Invalid TLS config: both key and cert must be configured'')"
    if same: "(?cert = []) = (?key = [])"
  proof
    assume "initConfig w g = Inl (Fatal ''Invalid TLS config: both key and cert must be configured'')"
    from reach [OF this] obtain g1 where loop: "setValueLoop w (configOpts g) g = Inr g1"
      and a: "assemble w g1 = Inl (Fatal ''Invalid TLS config: both key and cert must be configured'')"
      by auto
    from assemble_abort [OF a] have "tlsProvided g1 = 1" by simp
    with after(2) [OF loop] same show False by simp
  qed
  have nokey: "initConfig w g \<noteq> Inl (Fatal ''Invalid TLS config: key not configured'')"
  proof
    assume "initConfig w g = Inl (Fatal ''Invalid TLS config: key not configured'')"
    from reach [OF this] obtain g1 where loop: "setValueLoop w (configOpts g) g = Inr g1"
      and a: "assemble w g1 = Inl (Fatal ''Invalid TLS config: key not configured'')"
      by auto
    from assemble_abort [OF a] have "tlsProvided g1 \<noteq> 1"
      "GetString w (vp g1) ''tls-cert'' \<noteq> []" "GetString w (vp g1) ''tls-key'' = []"
      by simp_all
    with after [OF loop] show False by simp
  qed
  have nocert: "initConfig w g \<noteq> Inl (Fatal ''Invalid TLS config: cert not configured'')"
  proof
    assume "initConfig w g = Inl (Fatal ''Invalid TLS config: cert not configured'')"
    from reach [OF this] obtain g1 where loop: "setValueLoop w (configOpts g) g = Inr g1"
      and a: "assemble w g1 = Inl (Fatal ''Invalid TLS config: cert not configured'')"
      by auto
    from assemble_abort [OF a] have "tlsProvided g1 \<noteq> 1"
      "GetString w (vp g1) ''tls-cert'' = []" "GetString w (vp g1) ''tls-key'' \<noteq> []"
      by simp_all
    with after [OF loop] show False by simp
  qed
  from validate half both nokey nocert
  show "(\<forall>g1. setValueLoop w (configOpts g) g = Inr g1 \<longrightarrow>
        validateTLS (tlsProvided g1) =
          (if (?cert = []) = (?key = []) then Inr ()
           else Inl (Fatal ''Invalid TLS config: both key and cert must be configured'')))
     \<and> (\<forall>g1 ll. (?cert = []) \<noteq> (?key = [])
          \<and> requireLoop w (vp g) (configOpts g) = Inr () \<and> migrationGate w (vp g) = Inr ()
          \<and> setValueLoop w (configOpts g) g = Inr g1
          \<and> ParseLevel w (GetString w (vp g) ''log-level'') = Some ll \<longrightarrow>
          initConfig w g = Inl (Fatal ''Invalid TLS config: both key and cert must be configured''))
     \<and> ((?cert = []) = (?key = []) \<longrightarrow>
          initConfig w g \<noteq> Inl (Fatal ''Invalid TLS config: both key and cert must be configured''))
     \<and> initConfig w g \<noteq> Inl (Fatal ''Invalid TLS config: key not configured'')
     \<and> initConfig w g \<noteq> Inl (Fatal ''Invalid TLS config: cert not configured'')"
    by blast
qed

theorem tls_validation_witness:
  "initConfig w_cert_only g_start =
     Inl (Fatal ''Invalid TLS config: both key and cert must be configured'')
   \<and> initConfig w_cert_only g_start \<noteq> Inl (Fatal ''Invalid TLS config: key not configured'')
   \<and> initConfig w_ok g_start \<noteq>
     Inl (Fatal ''Invalid TLS config: both key and cert must be configured'')
   \<and> (\<exists>g1. setValueLoop w_ok (configOpts g_start) g_start = Inr g1
         \<and> validateTLS (tlsProvided g1) = Inr ())"
proof -
  from setValueLoop_w_cert_only obtain g1
    where loop: "setValueLoop w_cert_only (configOpts g_start) g_start = Inr g1" ..
  from setValueLoop_w_ok obtain g2
    where loop2: "setValueLoop w_ok (configOpts g_start) g_start = Inr g2" ..
  note t1 = tls_validation [of g_start w_cert_only] and t2 = tls_validation [of g_start w_ok]
  have a: "initConfig w_cert_only g_start =
     Inl (Fatal ''Invalid TLS config: both key and cert must be configured'')"
    using t1 loop require_w_cert_only gate_passes(3) ParseLevel_w_cert_only
    by (simp add: tlsProvided_g_start GetString_w_cert_only)
  have b: "initConfig w_cert_only g_start \<noteq> Inl (Fatal ''Invalid TLS config: key not configured'')"
    using t1 by (simp add: tlsProvided_g_start)
  have c: "initConfig w_ok g_start \<noteq>
     Inl (Fatal ''Invalid TLS config: both key and cert must be configured'')"
    using t2 by (simp add: tlsProvided_g_start GetString_tls_w_ok)
  have d: "validateTLS (tlsProvided g2) = Inr ()"
    using t2 loop2 by (simp add: tlsProvided_g_start GetString_tls_w_ok)
  from a b c d loop2 show ?thesis by blast
qed

text \<open>
  C5 as stated fails: with a certificate and no key the run ends with the message of
  \<open>validateTLS\<close>, which does not say that the key is the missing half.
\<close>

theorem tls_validation_counterexample:
  "GetString w_cert_only (vp g_start) ''tls-cert'' = ''horizon.crt''
   \<and> GetString w_cert_only (vp g_start) ''tls-key'' = []
   \<and> initConfig w_cert_only g_start =
       Inl (Fatal ''Invalid TLS config: both key and cert must be configured'')
   \<and> initConfig w_cert_only g_start \<noteq> Inl (Fatal ''Invalid TLS config: key not configured'')"
  by (simp add: GetString_w_cert_only initConfig_w_cert_only)

text \<open>
  C2, as the code has it. \<open>initConfig\<close> makes its checks in the order: required-field
  validation, then the migration gate, then the resolvers of the table in table order,
  then the checks that follow the loop (among them the cross-field TLS checks). The
  first fatal condition in that order is the outcome, and nothing after it runs; inside
  either loop the first failing entry is the one reported.
\<close>

theorem initConfig_order:
  "(\<forall>a. requireLoop w (vp g) (configOpts g) = Inl a \<longrightarrow> initConfig w g = Inl a)
   \<and> (\<forall>a. requireLoop w (vp g) (configOpts g) = Inr () \<and> migrationGate w (vp g) = Inl a
          \<longrightarrow> initConfig w g = Inl a)
   \<and> (\<forall>a. requireLoop w (vp g) (configOpts g) = Inr () \<and> migrationGate w (vp g) = Inr ()
          \<and> setValueLoop w (configOpts g) g = Inl a \<longrightarrow> initConfig w g = Inl a)
   \<and> (\<forall>a g1. requireLoop w (vp g) (configOpts g) = Inr () \<and> migrationGate w (vp g) = Inr ()
          \<and> setValueLoop w (configOpts g) g = Inr g1 \<and> assemble w g1 = Inl a
          \<longrightarrow> initConfig w g = Inl a)
   \<and> (\<forall>a xs co ys. requireLoop w v xs = Inr () \<and> require w v co = Inl a
          \<longrightarrow> requireLoop w v (xs @ co # ys) = Inl a)
   \<and> (\<forall>a xs co ys g1. setValueLoop w xs g = Inr g1 \<and> setValue co w g1 = Inl a
          \<longrightarrow> setValueLoop w (xs @ co # ys) g = Inl a)"
  using initConfig_stages [of w g]
  by (simp add: requireLoop_append setValueLoop_append)

theorem initConfig_order_witness:
  "initConfig w_blank_pending g_start =
     Inl (Fatal (''Invalid config: db-url is blank. Please specify --db-url on the ''
       @ ''command line or set the DATABASE_URL environment variable.''))
   \<and> (\<exists>ms. initConfig w_pending g_start = Inl (Exit ms 1))
   \<and> initConfig w_friendbot g_start = Inl (Panic ''interface conversion'')
   \<and> initConfig w_cert_only g_start =
       Inl (Fatal ''Invalid TLS config: both key and cert must be configured'')
   \<and> requireLoop w_blank_pending (vp g_start)
       ([opt ''redis-url'' ''REDIS_URL'' (PtrString (\<lambda>v. RedisURL_update (\<lambda>_. v)))
           (DString []) False None]
        @ opt ''stellar-core-url'' ''STELLAR_CORE_URL''
            (PtrString (\<lambda>v. StellarCoreURL_update (\<lambda>_. v))) (DString []) True None
        # [opt ''db-url'' ''DATABASE_URL'' (PtrString (\<lambda>v. DatabaseURL_update (\<lambda>_. v)))
            (DString []) True None])
       = Inl (Fatal (''Invalid config: stellar-core-url is blank. Please specify --stellar-core-url ''
           @ ''on the command line or set the STELLAR_CORE_URL environment variable.''))
   \<and> setValueLoop w_friendbot
       ([opt ''redis-url'' ''REDIS_URL'' (PtrString (\<lambda>v. RedisURL_update (\<lambda>_. v)))
           (DString []) False None]
        @ opt ''friendbot-url'' ''FRIENDBOT_URL''
            (PtrPtrURL (\<lambda>v. FriendbotURL_update (\<lambda>_. v))) (DString []) False (Some SetURL)
        # [opt ''log-level'' ''LOG_LEVEL'' (PtrLevel (\<lambda>v. LogLevel_update (\<lambda>_. v)))
            (DString ''info'') False (Some SetLogLevel)]) g_start
       = Inl (Panic ''interface conversion'')"
proof -
  let ?redis = "opt ''redis-url'' ''REDIS_URL'' (PtrString (\<lambda>v. RedisURL_update (\<lambda>_. v)))
           (DString []) False None"
  let ?core = "opt ''stellar-core-url'' ''STELLAR_CORE_URL''
            (PtrString (\<lambda>v. StellarCoreURL_update (\<lambda>_. v))) (DString []) True None"
  let ?friendbot = "opt ''friendbot-url'' ''FRIENDBOT_URL''
            (PtrPtrURL (\<lambda>v. FriendbotURL_update (\<lambda>_. v))) (DString []) False (Some SetURL)"
  have r1: "requireLoop w_blank_pending (vp g_start) [?redis] = Inr ()"
    by (simp add: require_def opt_def)
  have r2: "require w_blank_pending (vp g_start) ?core =
      Inl (Fatal (''Invalid config: stellar-core-url is blank. Please specify --stellar-core-url ''
           @ ''on the command line or set the STELLAR_CORE_URL environment variable.''))"
    by (simp add: require_def opt_def g_start_simps viper_defs world_defs)
  have e: "requireLoop w_blank_pending (vp g_start)
       ([?redis] @ ?core
        # [opt ''db-url'' ''DATABASE_URL'' (PtrString (\<lambda>v. DatabaseURL_update (\<lambda>_. v)))
            (DString []) True None])
       = Inl (Fatal (''Invalid config: stellar-core-url is blank. Please specify --stellar-core-url ''
           @ ''on the command line or set the STELLAR_CORE_URL environment variable.''))"
    using initConfig_order [of w_blank_pending g_start "vp g_start"] r1 r2 by blast
  have s1: "setValueLoop w_friendbot [?redis] g_start
      = Inr (g_start\<lparr>c_global := (c_global g_start)\<lparr>RedisURL := []\<rparr>\<rparr>)"
    by (simp add: setter_defs assert_defs opt_def g_start_simps viper_defs world_defs)
  have s2: "setValue ?friendbot w_friendbot
      (g_start\<lparr>c_global := (c_global g_start)\<lparr>RedisURL := []\<rparr>\<rparr>)
      = Inl (Panic ''interface conversion'')"
    by (simp add: setter_defs assert_defs typePanic_def opt_def g_start_simps viper_defs
        world_defs)
  have f: "setValueLoop w_friendbot
       ([?redis] @ ?friendbot
        # [opt ''log-level'' ''LOG_LEVEL'' (PtrLevel (\<lambda>v. LogLevel_update (\<lambda>_. v)))
            (DString ''info'') False (Some SetLogLevel)]) g_start
       = Inl (Panic ''interface conversion'')"
    using initConfig_order [of w_friendbot g_start] s1 s2 by blast
  have a: "initConfig w_blank_pending g_start =
     Inl (Fatal (''Invalid config: db-url is blank. Please specify --db-url on the ''
       @ ''command line or set the DATABASE_URL environment variable.''))"
    using initConfig_order [of w_blank_pending g_start] require_w_blank_pending by simp
  from migrationGate_abort [of w_pending "vp g_start"]
  obtain ms where "migrationGate w_pending (vp g_start) = Inl (Exit ms 1)"
    by (cases "migrationGate w_pending (vp g_start)")
       (auto simp: migrationGate_def world_defs)
  then have b: "\<exists>ms. initConfig w_pending g_start = Inl (Exit ms 1)"
    using initConfig_order [of w_pending g_start] require_w_pending by auto
  have c: "initConfig w_friendbot g_start = Inl (Panic ''interface conversion'')"
    using initConfig_order [of w_friendbot g_start] require_w_friendbot gate_passes(2)
      setValueLoop_w_friendbot by simp
  from setValueLoop_w_cert_only obtain g1
    where loop: "setValueLoop w_cert_only (configOpts g_start) g_start = Inr g1" ..
  from tlsProvided_after_loop [OF refl tlsProvided_g_start loop]
  have "vp g1 = vp g_start" "tlsProvided g1 = 1"
    by (simp_all add: GetString_w_cert_only)
  then have "assemble w_cert_only g1 =
      Inl (Fatal ''Invalid TLS config: both key and cert must be configured'')"
    by (intro assemble_tls_one [of _ _ InfoLevel])
       (simp_all add: GetString_w_cert_only ParseLevel_w_cert_only)
  then have d: "initConfig w_cert_only g_start =
       Inl (Fatal ''Invalid TLS config: both key and cert must be configured'')"
    using initConfig_order [of w_cert_only g_start] require_w_cert_only gate_passes(3) loop
    by blast
  from a b c d e f show ?thesis by blast
qed

text \<open>
  C2 as stated fails: with a migration pending and the database URL blank, the gate
  would abort, yet the failure reported is the blank required option, because the
  required-field loop runs before the gate.
\<close>

theorem initConfig_order_counterexample:
  "(\<exists>ms. migrationGate w_blank_pending (vp g_start) = Inl (Exit ms 1))
   \<and> initConfig w_blank_pending g_start =
     Inl (Fatal (''Invalid config: db-url is blank. Please specify --db-url on the ''
       @ ''command line or set the DATABASE_URL environment variable.''))"
proof -
  have "\<exists>ms. migrationGate w_blank_pending (vp g_start) = Inl (Exit ms 1)"
    by (simp add: migrationGate_def world_defs)
  moreover from initConfig_stages(1) [OF require_w_blank_pending]
  have "initConfig w_blank_pending g_start =
     Inl (Fatal (''Invalid config: db-url is blank. Please specify --db-url on the ''
       @ ''command line or set the DATABASE_URL environment variable.''))" .
  ultimately show ?thesis by blast
qed

text \<open>
  C1. The claim is that \<open>initConfig\<close> returns when every validation and the gate succeed.
  In the well-configured run every check passes and \<open>config\<close> is assigned, and then
  \<open>initConfig\<close> ends the process with "Died here"; \<open>initApp\<close> never reaches
  \<open>horizon.NewApp\<close>. No input makes \<open>initConfig\<close> or \<open>initApp\<close> return.
\<close>

theorem initConfig_dies_after_success:
  "(\<exists>g'. resolveConfig w_ok g_start = Inr g')
   \<and> initConfig w_ok g_start = Inl (Fatal ''Died here'')
   \<and> initApp w_ok g_start = Inl (Fatal ''Died here'')
   \<and> (\<forall>w g g'. initConfig w g \<noteq> Inr g' \<and> initApp w g \<noteq> Inr g')"
proof -
  have "initApp w g \<noteq> Inr g'" for w g g'
  proof (cases "initConfig w g")
    case (Inl a)
    then show ?thesis by (simp add: initApp_def)
  next
    case (Inr b)
    with initConfig_never_Inr [of w g b] show ?thesis by simp
  qed
  then show ?thesis
    using resolveConfig_w_ok initConfig_never_Inr by (simp add: initApp_def)
qed

text \<open>
  C3. The claim is that every descriptor's environment variable is bound as a source of
  its option. \<open>init\<close> calls \<open>viper.BindEnv\<close> only inside the branch that derives a missing
  \<open>envVar\<close>, so the two options with an explicit one, \<open>db-url\<close> and
  \<open>stellar-core-db-url\<close>, get no binding: with \<open>DATABASE_URL\<close> set, \<open>db-url\<close> still
  resolves to the empty default and the run ends asking for \<open>DATABASE_URL\<close>, while
  \<open>STELLAR_CORE_URL\<close>, a derived name, does supply \<open>stellar-core-url\<close>.
\<close>

theorem init_explicit_envVar_not_bound:
  "environ w_env ''DATABASE_URL'' = Some ''postgres://horizon''
   \<and> map envVar (take 3 (configOpts g_start))
       = [''DATABASE_URL'', ''STELLAR_CORE_DATABASE_URL'', ''STELLAR_CORE_URL'']
   \<and> env (vp g_start) ''db-url'' = None
   \<and> env (vp g_start) ''stellar-core-db-url'' = None
   \<and> env (vp g_start) ''stellar-core-url'' = Some ''STELLAR_CORE_URL''
   \<and> GetString w_env (vp g_start) ''db-url'' = []
   \<and> GetString w_env (vp g_start) ''stellar-core-url'' = ''http://core:11626''
   \<and> initConfig w_env g_start =
     Inl (Fatal (''Invalid config: db-url is blank. Please specify --db-url on the ''
       @ ''command line or set the DATABASE_URL environment variable.''))"
proof -
  have "environ w_env ''DATABASE_URL'' = Some ''postgres://horizon''"
    by (simp add: world_defs)
  moreover have "map envVar (take 3 (configOpts g_start))
       = [''DATABASE_URL'', ''STELLAR_CORE_DATABASE_URL'', ''STELLAR_CORE_URL'']"
    by (simp add: configOpts_g_start opt_def)
  moreover have "env (vp g_start) ''db-url'' = None"
    "env (vp g_start) ''stellar-core-db-url'' = None"
    "env (vp g_start) ''stellar-core-url'' = Some ''STELLAR_CORE_URL''"
    by (simp_all add: env_g_start)
  moreover have "GetString w_env (vp g_start) ''db-url'' = []"
    "GetString w_env (vp g_start) ''stellar-core-url'' = ''http://core:11626''"
    by (simp_all add: g_start_simps viper_defs world_defs)
  moreover from initConfig_stages(1) [OF require_w_env]
  have "initConfig w_env g_start =
     Inl (Fatal (''Invalid config: db-url is blank. Please specify --db-url on the ''
       @ ''command line or set the DATABASE_URL environment variable.''))" .
  ultimately show ?thesis by blast
qed

text \<open>
  C8. The claim is that a non-empty string that parses has the parsed URL stored in the
  destination. \<open>setURL\<close> asserts that the key holds a \<open>*url.URL\<close>; the key of
  \<open>friendbot-url\<close>, its only user, is \<open>&c.FriendbotURL\<close>, a \<open>**url.URL\<close>. The empty
  string and the string that does not parse behave as claimed; the string that parses
  makes the assertion panic, in \<open>setURL\<close> alone and in the whole of \<open>initConfig\<close>.
\<close>

theorem setURL_panics_on_parsed_url:
  "GetString w_friendbot (vp g_start) ''friendbot-url'' = ''https://friendbot.stellar.org/''
   \<and> urlParse w_friendbot ''https://friendbot.stellar.org/''
       = Inr \<lparr>Scheme = ''https'', Host = ''friendbot.stellar.org'', Path = ''/''\<rparr>
   \<and> setURL
       (opt ''friendbot-url'' ''FRIENDBOT_URL'' (PtrPtrURL (\<lambda>v. FriendbotURL_update (\<lambda>_. v)))
          (DString []) False (Some SetURL)) w_friendbot g_start
       = Inl (Panic ''interface conversion'')
   \<and> setValueLoop w_friendbot (configOpts g_start) g_start = Inl (Panic ''interface conversion'')
   \<and> initConfig w_friendbot g_start = Inl (Panic ''interface conversion'')"
proof -
  have s: "GetString w_friendbot (vp g_start) ''friendbot-url'' = ''https://friendbot.stellar.org/''"
    by (simp add: g_start_simps viper_defs world_defs)
  have u: "urlParse w_friendbot ''https://friendbot.stellar.org/''
       = Inr \<lparr>Scheme = ''https'', Host = ''friendbot.stellar.org'', Path = ''/''\<rparr>"
    by (simp add: world_defs)
  have p: "setURL
       (opt ''friendbot-url'' ''FRIENDBOT_URL'' (PtrPtrURL (\<lambda>v. FriendbotURL_update (\<lambda>_. v)))
          (DString []) False (Some SetURL)) w_friendbot g_start
       = Inl (Panic ''interface conversion'')"
    by (simp add: setURL_def opt_def s u assertPtrURL_def typePanic_def)
  show ?thesis
    using s u p setValueLoop_w_friendbot initConfig_w_friendbot by simp
qed

text \<open>
  The three cases of \<open>setURL\<close> in general: the empty string changes nothing, a string
  that does not parse is fatal and reported with the string, and a string that parses
  is stored through a key that holds a \<open>*url.URL\<close>, while a key that holds a
  \<open>**url.URL\<close> panics.
\<close>

lemma setURL_cases:
  "GetString w (vp g) (name co) = [] \<Longrightarrow> setURL co w g = Inr g"
  "GetString w (vp g) (name co) \<noteq> [] \<Longrightarrow> urlParse w (GetString w (vp g) (name co)) = Inl err
    \<Longrightarrow> setURL co w g =
         Inl (Fatal (''Unable to parse URL: '' @ GetString w (vp g) (name co) @ ''/'' @ err))"
  "GetString w (vp g) (name co) \<noteq> [] \<Longrightarrow> urlParse w (GetString w (vp g) (name co)) = Inr u
    \<Longrightarrow> configKey co = PtrURL st \<Longrightarrow> setURL co w g = Inr (g\<lparr>c_global := st u (c_global g)\<rparr>)"
  "GetString w (vp g) (name co) \<noteq> [] \<Longrightarrow> urlParse w (GetString w (vp g) (name co)) = Inr u
    \<Longrightarrow> configKey co = PtrPtrURL st' \<Longrightarrow> setURL co w g = Inl (Panic ''interface conversion'')"
  by (simp_all add: setURL_def assertPtrURL_def typePanic_def)

text \<open>
  C10. For every account row whose Thresholds array has at least 4 elements,
  PopulateAccountThresholds sets the destination's LowThreshold, MedThreshold and
  HighThreshold to elements 1, 2 and 3, in a way that does not depend on element 0, and
  leaves every other field of the destination as it was; with fewer than 4 elements the
  call does not return (an index is out of range).
\<close>

theorem PopulateAccountThresholds_spec:
  "(4 \<le> length (Thresholds row) \<longrightarrow>
      PopulateAccountThresholds dest row =
        Inr (dest\<lparr>LowThreshold := Thresholds row ! 1,
                  MedThreshold := Thresholds row ! 2,
                  HighThreshold := Thresholds row ! 3\<rparr>)
      \<and> (\<forall>d. PopulateAccountThresholds dest row = Inr d \<longrightarrow>
             AccountThresholds.more d = AccountThresholds.more dest)
      \<and> (\<forall>b. PopulateAccountThresholds dest (row\<lparr>Thresholds := (Thresholds row)[0 := b]\<rparr>)
             = PopulateAccountThresholds dest row))
   \<and> (length (Thresholds row) < 4 \<longrightarrow>
      PopulateAccountThresholds dest row = Inl (Panic ''index out of range''))"
proof (intro conjI impI)
  assume len: "4 \<le> length (Thresholds row)"
  then show ok: "PopulateAccountThresholds dest row =
        Inr (dest\<lparr>LowThreshold := Thresholds row ! 1,
                  MedThreshold := Thresholds row ! 2,
                  HighThreshold := Thresholds row ! 3\<rparr>)"
    by (simp add: PopulateAccountThresholds_def index_def)
  show "\<forall>d. PopulateAccountThresholds dest row = Inr d \<longrightarrow>
             AccountThresholds.more d = AccountThresholds.more dest"
    using ok by auto
  show "\<forall>b. PopulateAccountThresholds dest (row\<lparr>Thresholds := (Thresholds row)[0 := b]\<rparr>)
             = PopulateAccountThresholds dest row"
    using len by (simp add: PopulateAccountThresholds_def index_def)
next
  assume "length (Thresholds row) < 4"
  then show "PopulateAccountThresholds dest row = Inl (Panic ''index out of range'')"
    by (auto simp: PopulateAccountThresholds_def index_def bind_def)
qed

theorem PopulateAccountThresholds_spec_witness:
  "PopulateAccountThresholds
      \<lparr>LowThreshold = 0, MedThreshold = 0, HighThreshold = 0\<rparr>
      \<lparr>Thresholds = [1, 10, 20, 30]\<rparr>
     = Inr \<lparr>LowThreshold = 10, MedThreshold = 20, HighThreshold = 30\<rparr>
   \<and> PopulateAccountThresholds
      \<lparr>LowThreshold = 0, MedThreshold = 0, HighThreshold = 0\<rparr>
      \<lparr>Thresholds = [1, 10, 20]\<rparr>
     = Inl (Panic ''index out of range'')"
  using PopulateAccountThresholds_spec
          [of "\<lparr>Thresholds = [1, 10, 20, 30]\<rparr>"
              "\<lparr>LowThreshold = 0, MedThreshold = 0, HighThreshold = 0\<rparr>"]
        PopulateAccountThresholds_spec
          [of "\<lparr>Thresholds = [1, 10, 20]\<rparr>"
              "\<lparr>LowThreshold = 0, MedThreshold = 0, HighThreshold = 0\<rparr>"]
  by simp

end
